theory Spec2Isabelle
  imports Complex_Main "HOL-Library.AList" "HOL-Library.Sublist"
begin

section \<open>Circuit breaker (class CircuitBreaker)\<close>

text \<open>
  The breaker keeps one monitor per name in a JavaScript \<open>Map\<close>; a monitor that does not
  exist yet is created closed by \<open>_getMonitor\<close>. Every operation reads the clock
  (\<open>Date.now()\<close>): the reading is the argument \<open>now\<close>, in milliseconds. Logging and
  the emitted events do not change the breaker and are left out.
\<close>

datatype breaker_state = Closed | Open | HalfOpen

record monitor =
  failures :: nat
  state :: breaker_state
  lastFailure :: int
  consecutiveSuccesses :: nat

record circuit_breaker =
  failureThreshold :: nat
  resetTimeout :: int
  halfOpenTimeout :: int
  monitors :: "string \<rightharpoonup> monitor"
  lastStateChange :: "string \<rightharpoonup> int"

definition new_monitor :: monitor where
  "new_monitor = \<lparr>failures = 0, state = Closed, lastFailure = 0, consecutiveSuccesses = 0\<rparr>"

text \<open>The constructor with its defaults (\<open>options = {}\<close>).\<close>

definition default_breaker :: circuit_breaker where
  "default_breaker = \<lparr>failureThreshold = 5, resetTimeout = 60000, halfOpenTimeout = 30000,
     monitors = Map.empty, lastStateChange = Map.empty\<rparr>"

text \<open>\<open>_getMonitor\<close> inserts the fresh monitor and returns the stored one.\<close>

definition getMonitor :: "circuit_breaker \<Rightarrow> string \<Rightarrow> monitor \<times> circuit_breaker" where
  "getMonitor cb name =
     (case monitors cb name of
        None \<Rightarrow> (new_monitor, cb\<lparr>monitors := (monitors cb)(name \<mapsto> new_monitor)\<rparr>)
      | Some m \<Rightarrow> (m, cb))"

definition setMonitor :: "circuit_breaker \<Rightarrow> string \<Rightarrow> monitor \<Rightarrow> circuit_breaker" where
  "setMonitor cb name m = cb\<lparr>monitors := (monitors cb)(name \<mapsto> m)\<rparr>"

definition transitionToOpen :: "circuit_breaker \<Rightarrow> int \<Rightarrow> string \<Rightarrow> circuit_breaker" where
  "transitionToOpen cb now name =
     (let (m, cb1) = getMonitor cb name;
          cb2 = setMonitor cb1 name (m\<lparr>state := Open\<rparr>)
      in cb2\<lparr>lastStateChange := (lastStateChange cb2)(name \<mapsto> now)\<rparr>)"

definition transitionToHalfOpen :: "circuit_breaker \<Rightarrow> int \<Rightarrow> string \<Rightarrow> circuit_breaker" where
  "transitionToHalfOpen cb now name =
     (let (m, cb1) = getMonitor cb name;
          cb2 = setMonitor cb1 name (m\<lparr>state := HalfOpen, consecutiveSuccesses := 0\<rparr>)
      in cb2\<lparr>lastStateChange := (lastStateChange cb2)(name \<mapsto> now)\<rparr>)"

definition transitionToClosed :: "circuit_breaker \<Rightarrow> int \<Rightarrow> string \<Rightarrow> circuit_breaker" where
  "transitionToClosed cb now name =
     (let (m, cb1) = getMonitor cb name;
          cb2 = setMonitor cb1 name
                  (m\<lparr>state := Closed, failures := 0, consecutiveSuccesses := 0\<rparr>)
      in cb2\<lparr>lastStateChange := (lastStateChange cb2)(name \<mapsto> now)\<rparr>)"

definition isOpen :: "circuit_breaker \<Rightarrow> int \<Rightarrow> string \<Rightarrow> bool \<times> circuit_breaker" where
  "isOpen cb now name =
     (let (m, cb1) = getMonitor cb name;
          timeSinceLastFailure = now - lastFailure m
      in if state m = Open \<and> timeSinceLastFailure \<le> resetTimeout cb1 then (True, cb1)
         else if state m = Open \<and> timeSinceLastFailure > resetTimeout cb1
              then (False, transitionToHalfOpen cb1 now name)
         else (False, cb1))"

definition onSuccess :: "circuit_breaker \<Rightarrow> int \<Rightarrow> string \<Rightarrow> circuit_breaker" where
  "onSuccess cb now name =
     (let (m, cb1) = getMonitor cb name;
          cb2 = setMonitor cb1 name (m\<lparr>failures := 0\<rparr>)
      in if state m = HalfOpen then transitionToClosed cb2 now name else cb2)"

definition onError :: "circuit_breaker \<Rightarrow> int \<Rightarrow> string \<Rightarrow> circuit_breaker" where
  "onError cb now name =
     (let (m, cb1) = getMonitor cb name;
          m' = m\<lparr>failures := failures m + 1, lastFailure := now\<rparr>;
          cb2 = setMonitor cb1 name m'
      in if failures m' \<ge> failureThreshold cb2 then transitionToOpen cb2 now name else cb2)"

definition reset :: "circuit_breaker \<Rightarrow> int \<Rightarrow> string \<Rightarrow> circuit_breaker" where
  "reset cb now name =
     (if monitors cb name \<noteq> None then transitionToClosed cb now name else cb)"

text \<open>
  \<open>resetAll\<close> resets every monitor of the map; the loop over the keys is the pointwise
  update of both maps.
\<close>

definition resetAll :: "circuit_breaker \<Rightarrow> int \<Rightarrow> circuit_breaker" where
  "resetAll cb now =
     cb\<lparr>monitors := (\<lambda>n. map_option
                          (\<lambda>m. m\<lparr>state := Closed, failures := 0, consecutiveSuccesses := 0\<rparr>)
                          (monitors cb n)),
        lastStateChange := (\<lambda>n. if monitors cb n \<noteq> None then Some now
                                  else lastStateChange cb n)\<rparr>"

text \<open>The state a caller observes for a name (\<open>getStatus(name).state\<close>).\<close>

definition state_of :: "circuit_breaker \<Rightarrow> string \<Rightarrow> breaker_state" where
  "state_of cb name = state (fst (getMonitor cb name))"

text \<open>The public operations, each with the clock reading it is called at.\<close>

datatype breaker_op =
    IsOpen int string
  | OnSuccess int string
  | OnError int string
  | Reset int string
  | ResetAll int

fun apply_breaker_op :: "circuit_breaker \<Rightarrow> breaker_op \<Rightarrow> circuit_breaker" where
  "apply_breaker_op cb (IsOpen now name) = snd (isOpen cb now name)"
| "apply_breaker_op cb (OnSuccess now name) = onSuccess cb now name"
| "apply_breaker_op cb (OnError now name) = onError cb now name"
| "apply_breaker_op cb (Reset now name) = reset cb now name"
| "apply_breaker_op cb (ResetAll now) = resetAll cb now"

text \<open>The states a name goes through while a list of operations runs, the first state included.\<close>

fun breaker_history :: "circuit_breaker \<Rightarrow> string \<Rightarrow> breaker_op list \<Rightarrow> breaker_state list" where
  "breaker_history cb name [] = [state_of cb name]"
| "breaker_history cb name (op # ops) =
     state_of cb name # breaker_history (apply_breaker_op cb op) name ops"

text \<open>Running a list of operations, left to right.\<close>

definition run_breaker :: "circuit_breaker \<Rightarrow> breaker_op list \<Rightarrow> circuit_breaker" where
  "run_breaker cb ops = foldl apply_breaker_op cb ops"

text \<open>
  Five failures of venue \<open>v\<close> open its breaker; a call of \<open>isOpen\<close> later than
  \<open>resetTimeout\<close> after the last failure makes it half-open.
\<close>

definition trip_and_probe :: "breaker_op list" where
  "trip_and_probe =
     [OnError 1 ''v'', OnError 2 ''v'', OnError 3 ''v'', OnError 4 ''v'', OnError 5 ''v'',
      IsOpen 10 ''v'', IsOpen 70000 ''v'']"

section \<open>Decimal values (the library decimal.js)\<close>

text \<open>
  The program computes with \<open>Decimal\<close> objects of the library decimal.js and with
  JavaScript numbers. Both have the finite values and three special ones. The model keeps
  the finite values exact, as rationals: the library's rounding to 20 significant digits,
  the rounding of JavaScript numbers and the sign of zero are not modelled (a zero is the
  positive zero). The operations below follow the library's rules for the special values.
\<close>

datatype decimal = Fin rat | PInf | NInf | NaN

fun d_neg :: "decimal \<Rightarrow> decimal" where
  "d_neg (Fin a) = Fin (- a)"
| "d_neg PInf = NInf"
| "d_neg NInf = PInf"
| "d_neg NaN = NaN"

fun is_neg :: "decimal \<Rightarrow> bool" where
  "is_neg (Fin a) = (a < 0)"
| "is_neg NInf = True"
| "is_neg PInf = False"
| "is_neg NaN = False"

fun d_plus :: "decimal \<Rightarrow> decimal \<Rightarrow> decimal" where
  "d_plus NaN _ = NaN"
| "d_plus _ NaN = NaN"
| "d_plus (Fin a) (Fin b) = Fin (a + b)"
| "d_plus PInf NInf = NaN"
| "d_plus NInf PInf = NaN"
| "d_plus PInf _ = PInf"
| "d_plus NInf _ = NInf"
| "d_plus (Fin a) y = y"

definition d_minus :: "decimal \<Rightarrow> decimal \<Rightarrow> decimal" where
  "d_minus x y = d_plus x (d_neg y)"

text \<open>Multiplication: an infinity times zero is \<open>NaN\<close>.\<close>

fun d_mul :: "decimal \<Rightarrow> decimal \<Rightarrow> decimal" where
  "d_mul NaN _ = NaN"
| "d_mul _ NaN = NaN"
| "d_mul (Fin a) (Fin b) = Fin (a * b)"
| "d_mul x y =
     (if x = Fin 0 \<or> y = Fin 0 then NaN else if is_neg x = is_neg y then PInf else NInf)"

text \<open>
  Division: zero by zero and infinity by infinity are \<open>NaN\<close>; a non-zero finite value by
  zero is an infinity; a finite value by an infinity is zero.
\<close>

fun d_div :: "decimal \<Rightarrow> decimal \<Rightarrow> decimal" where
  "d_div NaN _ = NaN"
| "d_div _ NaN = NaN"
| "d_div (Fin a) (Fin b) =
     (if b = 0 then (if a = 0 then NaN else if a < 0 then NInf else PInf) else Fin (a / b))"
| "d_div (Fin a) _ = Fin 0"
| "d_div x (Fin b) = (if is_neg x = is_neg (Fin b) then PInf else NInf)"
| "d_div _ _ = NaN"

fun d_abs :: "decimal \<Rightarrow> decimal" where
  "d_abs (Fin a) = Fin \<bar>a\<bar>"
| "d_abs PInf = PInf"
| "d_abs NInf = PInf"
| "d_abs NaN = NaN"

text \<open>Every comparison with \<open>NaN\<close> is false.\<close>

fun d_lt :: "decimal \<Rightarrow> decimal \<Rightarrow> bool" where
  "d_lt NaN _ = False"
| "d_lt _ NaN = False"
| "d_lt (Fin a) (Fin b) = (a < b)"
| "d_lt _ NInf = False"
| "d_lt NInf _ = True"
| "d_lt PInf _ = False"
| "d_lt _ PInf = True"

definition d_gt :: "decimal \<Rightarrow> decimal \<Rightarrow> bool" where
  "d_gt x y = d_lt y x"

definition d_lte :: "decimal \<Rightarrow> decimal \<Rightarrow> bool" where
  "d_lte x y = (x \<noteq> NaN \<and> y \<noteq> NaN \<and> \<not> d_lt y x)"

definition d_gte :: "decimal \<Rightarrow> decimal \<Rightarrow> bool" where
  "d_gte x y = d_lte y x"

text \<open>\<open>Decimal.max(x, y)\<close> and \<open>Decimal.min(x, y)\<close>: \<open>NaN\<close> if either is.\<close>

definition d_max :: "decimal \<Rightarrow> decimal \<Rightarrow> decimal" where
  "d_max x y = (if y = NaN then NaN else if d_lt x y then y else x)"

definition d_min :: "decimal \<Rightarrow> decimal \<Rightarrow> decimal" where
  "d_min x y = (if y = NaN then NaN else if d_gt x y then y else x)"

definition d_isZero :: "decimal \<Rightarrow> bool" where
  "d_isZero x = (x = Fin 0)"

text \<open>\<open>isPositive\<close> tests the sign only: it is true of zero and of \<open>Infinity\<close>.\<close>

fun d_isPositive :: "decimal \<Rightarrow> bool" where
  "d_isPositive (Fin a) = (0 \<le> a)"
| "d_isPositive PInf = True"
| "d_isPositive NInf = False"
| "d_isPositive NaN = False"

fun d_isFinite :: "decimal \<Rightarrow> bool" where
  "d_isFinite (Fin a) = True"
| "d_isFinite _ = False"

text \<open>
  A value handed to \<open>new Decimal(v)\<close> either is a decimal or makes the constructor
  throw (a string that is no number, \<open>null\<close>, \<open>undefined\<close>, an object): such an argument
  is \<open>Some d\<close> or \<open>None\<close>.
\<close>

type_synonym decimal_arg = "decimal option"

section \<open>Price validation (class PriceValidator)\<close>

record validator_config =
  maxPriceDeviation :: decimal
  minValidSources :: nat
  priceValidityMs :: int
  maxStalePrice :: int
  minPrice :: decimal
  maxPrice :: decimal

definition default_validator_config :: validator_config where
  "default_validator_config =
     \<lparr>maxPriceDeviation = Fin (1 / 10), minValidSources = 2, priceValidityMs = 30000,
      maxStalePrice = 300000, minPrice = Fin (1 / 100000), maxPrice = Fin 1000000\<rparr>"

text \<open>
  The second argument of \<open>validatePrice\<close>: each field may be missing (\<open>undefined\<close>).
  The argument itself may be \<open>null\<close>, which is \<open>None\<close> below; a missing argument is
  the empty object.
\<close>

record price_context =
  recentPrices :: "decimal_arg list option"
  timestamp :: "int option"
  exchange :: "string option"

definition empty_context :: price_context where
  "empty_context = \<lparr>recentPrices = None, timestamp = None, exchange = None\<rparr>"

record history_entry =
  entry_price :: decimal_arg
  entry_timestamp :: int

type_synonym price_history = "string \<rightharpoonup> history_entry list"

datatype js_error = DecimalError | TypeError | Error string

definition isValidNumber :: "decimal_arg \<Rightarrow> bool" where
  "isValidNumber price =
     (case price of
        None \<Rightarrow> False
      | Some decimal \<Rightarrow> d_isPositive decimal \<and> d_isFinite decimal)"

definition isWithinRange :: "validator_config \<Rightarrow> decimal_arg \<Rightarrow> js_error + bool" where
  "isWithinRange cfg price =
     (case price of
        None \<Rightarrow> Inl DecimalError
      | Some priceDecimal \<Rightarrow>
          Inr (d_gte priceDecimal (minPrice cfg) \<and> d_lte priceDecimal (maxPrice cfg)))"

text \<open>The sum of \<open>_calculateAverage\<close>: the \<open>reduce\<close> throws at the first entry that is no decimal.\<close>

fun sum_prices :: "decimal \<Rightarrow> decimal_arg list \<Rightarrow> js_error + decimal" where
  "sum_prices acc [] = Inr acc"
| "sum_prices acc (None # ps) = Inl DecimalError"
| "sum_prices acc (Some p # ps) = sum_prices (d_plus acc p) ps"

definition calculateAverage :: "decimal_arg list \<Rightarrow> js_error + decimal" where
  "calculateAverage prices =
     (if prices = [] then Inr (Fin 0)
      else case sum_prices (Fin 0) prices of
             Inl e \<Rightarrow> Inl e
           | Inr s \<Rightarrow> Inr (d_div s (Fin (of_nat (length prices)))))"

definition isWithinDeviation ::
  "validator_config \<Rightarrow> decimal_arg \<Rightarrow> decimal_arg list option \<Rightarrow> js_error + bool" where
  "isWithinDeviation cfg price recent =
     (let recentPrices = (case recent of None \<Rightarrow> [] | Some ps \<Rightarrow> ps)
      in if recentPrices = [] then Inr True
         else case price of
                None \<Rightarrow> Inl DecimalError
              | Some priceDecimal \<Rightarrow>
                  (case calculateAverage recentPrices of
                     Inl e \<Rightarrow> Inl e
                   | Inr average \<Rightarrow>
                       Inr (d_lte (d_div (d_abs (d_minus priceDecimal average)) average)
                              (maxPriceDeviation cfg))))"

definition isPriceFresh :: "validator_config \<Rightarrow> int \<Rightarrow> int \<Rightarrow> bool" where
  "isPriceFresh cfg now ts = (now - ts < maxStalePrice cfg)"

text \<open>A missing or empty exchange name is falsy: the history is left alone.\<close>

definition updatePriceHistory ::
  "validator_config \<Rightarrow> int \<Rightarrow> price_history \<Rightarrow> string option \<Rightarrow> decimal_arg \<Rightarrow> price_history" where
  "updatePriceHistory cfg now h ex price =
     (case ex of
        None \<Rightarrow> h
      | Some name \<Rightarrow>
          if name = [] then h
          else let history = (case h name of None \<Rightarrow> [] | Some es \<Rightarrow> es)
                     @ [\<lparr>entry_price = price, entry_timestamp = now\<rparr>];
                   cutoff = now - priceValidityMs cfg
               in h(name \<mapsto> filter (\<lambda>entry. entry_timestamp entry > cutoff) history))"

text \<open>
  The body of the \<open>try\<close> block of \<open>validatePrice\<close>. Reading a field of a \<open>null\<close>
  context throws. The history changes in the last step only, which cannot throw.
\<close>

definition validatePrice_try ::
  "validator_config \<Rightarrow> int \<Rightarrow> price_history \<Rightarrow> decimal_arg \<Rightarrow> price_context option
     \<Rightarrow> js_error + (bool \<times> price_history)" where
  "validatePrice_try cfg now h price ctx =
     (if \<not> isValidNumber price then Inr (False, h)
      else (case isWithinRange cfg price of
        Inl e \<Rightarrow> Inl e
      | Inr inRange \<Rightarrow>
          (if \<not> inRange then Inr (False, h)
           else (case ctx of
             None \<Rightarrow> Inl TypeError
           | Some context \<Rightarrow>
               (case isWithinDeviation cfg price (recentPrices context) of
                  Inl e \<Rightarrow> Inl e
                | Inr inDeviation \<Rightarrow>
                    (if \<not> inDeviation then Inr (False, h)
                     else if (case timestamp context of
                                None \<Rightarrow> False
                              | Some ts \<Rightarrow> ts \<noteq> 0 \<and> \<not> isPriceFresh cfg now ts)
                          then Inr (False, h)
                     else Inr (True,
                            updatePriceHistory cfg now h (exchange context) price)))))))"

text \<open>\<open>validatePrice\<close>: the \<open>catch\<close> turns every error into the answer false.\<close>

definition validatePrice ::
  "validator_config \<Rightarrow> int \<Rightarrow> price_history \<Rightarrow> decimal_arg \<Rightarrow> price_context option
     \<Rightarrow> bool \<times> price_history" where
  "validatePrice cfg now h price ctx =
     (case validatePrice_try cfg now h price ctx of
        Inl e \<Rightarrow> (False, h)
      | Inr r \<Rightarrow> r)"

text \<open>
  The prices that are no finite number above zero: a value that is no number at all,
  \<open>NaN\<close>, an infinity, a negative number, zero.
\<close>

definition malformed_price :: "decimal_arg \<Rightarrow> bool" where
  "malformed_price price =
     (case price of
        None \<Rightarrow> True
      | Some d \<Rightarrow> \<not> d_isFinite d \<or> \<not> d_lt (Fin 0) d)"

text \<open>The checks of \<open>validatePrice\<close> other than the range check, for a context that is an object.\<close>

definition other_checks_pass ::
  "validator_config \<Rightarrow> int \<Rightarrow> decimal \<Rightarrow> price_context \<Rightarrow> bool" where
  "other_checks_pass cfg now p context =
     (isValidNumber (Some p)
      \<and> isWithinDeviation cfg (Some p) (recentPrices context) = Inr True
      \<and> (case timestamp context of
            None \<Rightarrow> True
          | Some ts \<Rightarrow> ts = 0 \<or> isPriceFresh cfg now ts))"

text \<open>
  Concrete inputs: a context with one recent price, and a validator configured with a
  minimum price of zero together with a context that only names the venue.
\<close>

definition zero_minimum_config :: validator_config where
  "zero_minimum_config = default_validator_config\<lparr>minPrice := Fin 0\<rparr>"

definition venue_context :: price_context where
  "venue_context = \<lparr>recentPrices = None, timestamp = None, exchange = Some ''v''\<rparr>"

definition sample_context :: price_context where
  "sample_context =
     \<lparr>recentPrices = Some [Some (Fin 950000)], timestamp = Some 900, exchange = Some ''v''\<rparr>"

section \<open>Balance ledger (class BalanceManager)\<close>

text \<open>
  Balances and reservations are kept in two JavaScript maps whose keys are strings built
  from the exchange, the currency and the order id. The reservations are an association
  list in insertion order, as the \<open>Map\<close> iterates; \<open>set\<close> on a key that exists replaces
  the value in place. Amounts are stored as the strings of their decimals and read back, which
  is the identity. Events and log lines are left out. The case conversions are those of
  the ASCII letters.
\<close>

definition toLowerCase_char :: "char \<Rightarrow> char" where
  "toLowerCase_char c =
     (let n = (of_char c :: nat) in if 65 \<le> n \<and> n \<le> 90 then char_of (n + 32) else c)"

definition toUpperCase_char :: "char \<Rightarrow> char" where
  "toUpperCase_char c =
     (let n = (of_char c :: nat) in if 97 \<le> n \<and> n \<le> 122 then char_of (n - 32) else c)"

definition toLowerCase :: "string \<Rightarrow> string" where
  "toLowerCase s = map toLowerCase_char s"

definition toUpperCase :: "string \<Rightarrow> string" where
  "toUpperCase s = map toUpperCase_char s"

record reservation =
  amount :: decimal
  reserved_at :: int

record balance_manager =
  balances :: "string \<rightharpoonup> decimal"
  reservedBalances :: "(string \<times> reservation) list"
  reserveTimeoutMs :: int

definition new_balance_manager :: balance_manager where
  "new_balance_manager = \<lparr>balances = Map.empty, reservedBalances = [], reserveTimeoutMs = 30000\<rparr>"

definition getKey :: "string \<Rightarrow> string \<Rightarrow> string" where
  "getKey ex currency = toLowerCase ex @ ''_'' @ toUpperCase currency"

definition reserveKey_of :: "string \<Rightarrow> string \<Rightarrow> string \<Rightarrow> string" where
  "reserveKey_of ex currency orderId = getKey ex currency @ ''_'' @ orderId"

definition getBalance :: "balance_manager \<Rightarrow> string \<Rightarrow> string \<Rightarrow> decimal" where
  "getBalance bm ex currency =
     (case balances bm (getKey ex currency) of None \<Rightarrow> Fin 0 | Some b \<Rightarrow> b)"

text \<open>The loop of \<open>getReservedBalance\<close>: the reservations whose key starts with the key of the pair.\<close>

fun sum_reserved :: "string \<Rightarrow> decimal \<Rightarrow> (string \<times> reservation) list \<Rightarrow> decimal" where
  "sum_reserved key acc [] = acc"
| "sum_reserved key acc ((reserveKey, r) # rs) =
     sum_reserved key (if prefix key reserveKey then d_plus acc (amount r) else acc) rs"

definition getReservedBalance :: "balance_manager \<Rightarrow> string \<Rightarrow> string \<Rightarrow> decimal" where
  "getReservedBalance bm ex currency =
     sum_reserved (getKey ex currency) (Fin 0) (reservedBalances bm)"

definition getAvailableBalance :: "balance_manager \<Rightarrow> string \<Rightarrow> string \<Rightarrow> decimal" where
  "getAvailableBalance bm ex currency =
     d_max (d_minus (getBalance bm ex currency) (getReservedBalance bm ex currency)) (Fin 0)"

text \<open>
  The three mutators return false where the source throws inside its \<open>try\<close> block: an
  amount that is no decimal, a negative balance, too little available, no such reservation.
\<close>

definition updateBalance ::
  "balance_manager \<Rightarrow> string \<Rightarrow> string \<Rightarrow> decimal_arg \<Rightarrow> bool \<times> balance_manager" where
  "updateBalance bm ex currency amt =
     (case amt of
        None \<Rightarrow> (False, bm)
      | Some newBalance \<Rightarrow>
          if d_lt newBalance (Fin 0) then (False, bm)
          else (True, bm\<lparr>balances := (balances bm)(getKey ex currency \<mapsto> newBalance)\<rparr>))"

definition reserveBalance ::
  "balance_manager \<Rightarrow> int \<Rightarrow> string \<Rightarrow> string \<Rightarrow> decimal_arg \<Rightarrow> string
     \<Rightarrow> bool \<times> balance_manager" where
  "reserveBalance bm now ex currency amt orderId =
     (case amt of
        None \<Rightarrow> (False, bm)
      | Some reserveAmount \<Rightarrow>
          if d_lt (getAvailableBalance bm ex currency) reserveAmount then (False, bm)
          else (True, bm\<lparr>reservedBalances :=
                  AList.update (reserveKey_of ex currency orderId)
                    \<lparr>amount = reserveAmount, reserved_at = now\<rparr> (reservedBalances bm)\<rparr>))"

definition releaseBalance ::
  "balance_manager \<Rightarrow> string \<Rightarrow> string \<Rightarrow> string \<Rightarrow> bool \<times> balance_manager" where
  "releaseBalance bm ex currency orderId =
     (if map_of (reservedBalances bm) (reserveKey_of ex currency orderId) = None then (False, bm)
      else (True, bm\<lparr>reservedBalances :=
              AList.delete (reserveKey_of ex currency orderId) (reservedBalances bm)\<rparr>))"

text \<open>
  The timer that \<open>_setReserveTimeout\<close> starts at every reservation: when it fires, the
  reservation stored under the key, if any, is deleted.
\<close>

definition reserveTimeout :: "balance_manager \<Rightarrow> string \<Rightarrow> string \<Rightarrow> string \<Rightarrow> balance_manager" where
  "reserveTimeout bm ex currency orderId =
     (if map_of (reservedBalances bm) (reserveKey_of ex currency orderId) \<noteq> None
      then bm\<lparr>reservedBalances :=
             AList.delete (reserveKey_of ex currency orderId) (reservedBalances bm)\<rparr>
      else bm)"

datatype ledger_op =
    UpdateBalance string string decimal_arg
  | Reserve int string string decimal_arg string
  | Release string string string
  | Expire string string string

fun apply_ledger_op :: "balance_manager \<Rightarrow> ledger_op \<Rightarrow> balance_manager" where
  "apply_ledger_op bm (UpdateBalance ex c a) = snd (updateBalance bm ex c a)"
| "apply_ledger_op bm (Reserve now ex c a oid) = snd (reserveBalance bm now ex c a oid)"
| "apply_ledger_op bm (Release ex c oid) = snd (releaseBalance bm ex c oid)"
| "apply_ledger_op bm (Expire ex c oid) = reserveTimeout bm ex c oid"

definition run_ledger :: "balance_manager \<Rightarrow> ledger_op list \<Rightarrow> balance_manager" where
  "run_ledger bm ops = foldl apply_ledger_op bm ops"

text \<open>
  Two balances of 100 on exchange \<open>ex\<close>, in USD and in USDT, and one reservation of 50 USDT
  for order \<open>o1\<close>.
\<close>

definition usd_usdt_ops :: "ledger_op list" where
  "usd_usdt_ops =
     [UpdateBalance ''ex'' ''USD'' (Some (Fin 100)),
      UpdateBalance ''ex'' ''USDT'' (Some (Fin 100)),
      Reserve 1000 ''ex'' ''USDT'' (Some (Fin 50)) ''o1'']"

text \<open>A balance of 100 USDT on exchange \<open>ex\<close> with 30 reserved for order \<open>o1\<close>.\<close>

definition one_reservation :: balance_manager where
  "one_reservation =
     run_ledger new_balance_manager
       [UpdateBalance ''ex'' ''USDT'' (Some (Fin 100)),
        Reserve 1000 ''ex'' ''USDT'' (Some (Fin 30)) ''o1'']"

section \<open>Opportunity detection (class ArbitrageDetector)\<close>

text \<open>
  The configuration values are JavaScript numbers; \<open>minSpreadPercent / 100\<close> and
  \<open>maxSlippage / 100\<close> are divisions of numbers, modelled without rounding.
\<close>

record detector_config =
  minSpreadPercent :: decimal
  minVolumeUSD :: decimal
  det_maxSlippage :: decimal
  minProfitUSD :: decimal

definition default_detector_config :: detector_config where
  "default_detector_config =
     \<lparr>minSpreadPercent = Fin (1 / 2), minVolumeUSD = Fin 1000, det_maxSlippage = Fin (3 / 10),
      minProfitUSD = Fin 1\<rparr>"

text \<open>
  An entry of the price map. The price goes through \<open>new Decimal\<close>; the volume is a
  number or missing.
\<close>

record price_entry =
  pe_exchange :: string
  pe_price :: decimal_arg
  pe_volume :: "decimal option"
  pe_timestamp :: int

record opportunity =
  buyExchange :: string
  sellExchange :: string
  buyPrice :: decimal_arg
  sellPrice :: decimal_arg
  spread :: decimal
  volume :: decimal
  profit :: decimal
  opp_timestamp :: int

text \<open>\<open>volume || 0\<close>: a missing volume, zero and \<open>NaN\<close> are falsy.\<close>

definition or_zero :: "decimal option \<Rightarrow> decimal" where
  "or_zero v = (case v of None \<Rightarrow> Fin 0 | Some d \<Rightarrow> (if d = NaN then Fin 0 else d))"

definition det_validatePrices :: "int \<Rightarrow> price_entry \<Rightarrow> price_entry \<Rightarrow> bool" where
  "det_validatePrices now buy sell =
     (let maxAge = 5000
      in \<not> (now - pe_timestamp buy > maxAge \<or> now - pe_timestamp sell > maxAge))"

definition calculateSpread :: "decimal_arg \<Rightarrow> decimal_arg \<Rightarrow> js_error + decimal" where
  "calculateSpread buyP sellP =
     (case sellP of
        None \<Rightarrow> Inl DecimalError
      | Some s \<Rightarrow>
          (case buyP of
             None \<Rightarrow> Inl DecimalError
           | Some b \<Rightarrow> Inr (d_mul (d_div (d_minus s b) b) (Fin 100))))"

definition calculateProfit ::
  "detector_config \<Rightarrow> decimal_arg \<Rightarrow> decimal_arg \<Rightarrow> decimal \<Rightarrow> js_error + decimal" where
  "calculateProfit cfg buyP sellP vol =
     (case buyP of
        None \<Rightarrow> Inl DecimalError
      | Some b \<Rightarrow>
          (case sellP of
             None \<Rightarrow> Inl DecimalError
           | Some s \<Rightarrow>
               (let cost = d_mul b vol;
                    revenue = d_mul s vol;
                    totalFees = d_mul cost (Fin (2 / 1000));
                    slippage = d_mul cost (d_div (det_maxSlippage cfg) (Fin 100))
                in Inr (d_minus (d_minus (d_minus revenue cost) totalFees) slippage))))"

definition checkPair ::
  "detector_config \<Rightarrow> int \<Rightarrow> price_entry \<Rightarrow> price_entry \<Rightarrow> js_error + opportunity option" where
  "checkPair cfg now buy sell =
     (if \<not> det_validatePrices now buy sell then Inr None
      else (case calculateSpread (pe_price buy) (pe_price sell) of
        Inl e \<Rightarrow> Inl e
      | Inr spr \<Rightarrow>
          (if d_lt spr (d_div (minSpreadPercent cfg) (Fin 100)) then Inr None
           else (let vol = d_min (or_zero (pe_volume buy)) (or_zero (pe_volume sell))
                 in if d_lt vol (minVolumeUSD cfg) then Inr None
                    else (case calculateProfit cfg (pe_price buy) (pe_price sell) vol of
                      Inl e \<Rightarrow> Inl e
                    | Inr prof \<Rightarrow>
                        (if d_lt prof (minProfitUSD cfg) then Inr None
                         else Inr (Some
                           \<lparr>buyExchange = pe_exchange buy, sellExchange = pe_exchange sell,
                            buyPrice = pe_price buy, sellPrice = pe_price sell,
                            spread = spr, volume = vol, profit = prof,
                            opp_timestamp = now\<rparr>)))))))"

text \<open>
  \<open>_filterBestOpportunities\<close> sorts with the comparator \<open>b.profit - a.profit\<close> and keeps
  five. The sort is stable; it is modelled as a stable insertion sort, which is what every
  stable sort computes when the profits are finite.
\<close>

fun insert_by_profit :: "opportunity \<Rightarrow> opportunity list \<Rightarrow> opportunity list" where
  "insert_by_profit x [] = [x]"
| "insert_by_profit x (y # ys) =
     (if d_gt (d_minus (profit y) (profit x)) (Fin 0) then y # insert_by_profit x ys
      else x # y # ys)"

definition filterBestOpportunities :: "opportunity list \<Rightarrow> opportunity list" where
  "filterBestOpportunities opps = take 5 (foldr insert_by_profit opps [])"

definition getUniqueExchanges :: "(string \<times> price_entry) list \<Rightarrow> string list" where
  "getUniqueExchanges prices = rev (remdups (rev (map fst prices)))"

text \<open>The two loops of \<open>detectArbitrage\<close>: the first error ends them.\<close>

fun check_all ::
  "detector_config \<Rightarrow> int \<Rightarrow> (price_entry \<times> price_entry) list \<Rightarrow> js_error + opportunity list" where
  "check_all cfg now [] = Inr []"
| "check_all cfg now ((b, s) # ps) =
     (case checkPair cfg now b s of
        Inl e \<Rightarrow> Inl e
      | Inr found \<Rightarrow>
          (case check_all cfg now ps of
             Inl e \<Rightarrow> Inl e
           | Inr rest \<Rightarrow> Inr ((case found of None \<Rightarrow> [] | Some opp \<Rightarrow> [opp]) @ rest)))"

text \<open>
  \<open>detectArbitrage\<close>: the price map is an association list with distinct keys, in
  insertion order; an error gives the empty list.
\<close>

definition detectArbitrage ::
  "detector_config \<Rightarrow> int \<Rightarrow> (string \<times> price_entry) list \<Rightarrow> opportunity list" where
  "detectArbitrage cfg now prices =
     (let exchanges = getUniqueExchanges prices;
          pairs = concat (map (\<lambda>buyEx.
                    concat (map (\<lambda>sellEx.
                      if buyEx = sellEx then []
                      else (case (map_of prices buyEx, map_of prices sellEx) of
                              (Some b, Some s) \<Rightarrow> [(b, s)]
                            | _ \<Rightarrow> [])) exchanges)) exchanges)
      in case check_all cfg now pairs of
           Inl e \<Rightarrow> []
         | Inr opps \<Rightarrow> filterBestOpportunities opps)"

text \<open>
  A detector configured with a minimum spread of 1 percent, and two fresh prices, 100 and
  100.8, each with a volume of 1000.
\<close>

definition one_percent_config :: detector_config where
  "one_percent_config = default_detector_config\<lparr>minSpreadPercent := Fin 1\<rparr>"

definition entry_a :: price_entry where
  "entry_a = \<lparr>pe_exchange = ''a'', pe_price = Some (Fin 100), pe_volume = Some (Fin 1000),
     pe_timestamp = 1000\<rparr>"

definition entry_b :: price_entry where
  "entry_b = \<lparr>pe_exchange = ''b'', pe_price = Some (Fin (1008 / 10)), pe_volume = Some (Fin 1000),
     pe_timestamp = 1000\<rparr>"

section \<open>Depth analysis (class MarketDepthAnalyzer)\<close>

record depth_config =
  da_maxSlippage :: decimal
  da_minLiquidity :: decimal
  da_maxImpact :: decimal

definition default_depth_config :: depth_config where
  "default_depth_config =
     \<lparr>da_maxSlippage = Fin (3 / 1000), da_minLiquidity = Fin 1000, da_maxImpact = Fin (1 / 10)\<rparr>"

text \<open>A level of the book is a pair of a price and an amount, each given to \<open>new Decimal\<close>.\<close>

type_synonym book_level = "decimal_arg \<times> decimal_arg"

record order_book =
  bids :: "book_level list"
  asks :: "book_level list"

datatype book_side = BuySide | SellSide

record walk_state =
  remainingAmount :: decimal
  totalCost :: decimal
  weightedPrice :: decimal
  filledAmount :: decimal

record side_analysis =
  sa_filledAmount :: decimal
  sa_remainingAmount :: decimal
  sa_averagePrice :: decimal
  sa_slippagePercent :: decimal
  sa_totalCost :: decimal

text \<open>The loop of \<open>_analyzeSide\<close>; it stops when nothing remains to fill.\<close>

fun walk_orders :: "book_level list \<Rightarrow> walk_state \<Rightarrow> js_error + walk_state" where
  "walk_orders [] st = Inr st"
| "walk_orders ((None, _) # os) st = Inl DecimalError"
| "walk_orders ((Some orderPrice, None) # os) st = Inl DecimalError"
| "walk_orders ((Some orderPrice, Some orderAmount) # os) st =
     (let fillAmount = d_min (remainingAmount st) orderAmount;
          orderCost = d_mul fillAmount orderPrice;
          st' = \<lparr>remainingAmount = d_minus (remainingAmount st) fillAmount,
                 totalCost = d_plus (totalCost st) orderCost,
                 weightedPrice = d_plus (weightedPrice st) (d_mul orderPrice fillAmount),
                 filledAmount = d_plus (filledAmount st) fillAmount\<rparr>
      in if d_isZero (remainingAmount st') then Inr st' else walk_orders os st')"

text \<open>
  \<open>_analyzeSide\<close>. After the loop, \<open>orders[0][0]\<close> throws on an empty side, and its
  conversion throws when it is no decimal (an empty side only: the loop has converted it
  otherwise).
\<close>

definition analyzeSide ::
  "book_level list \<Rightarrow> decimal_arg \<Rightarrow> book_side \<Rightarrow> js_error + side_analysis" where
  "analyzeSide orders targetAmount side =
     (case targetAmount of
        None \<Rightarrow> Inl DecimalError
      | Some target \<Rightarrow>
          (case walk_orders orders
                  \<lparr>remainingAmount = target, totalCost = Fin 0, weightedPrice = Fin 0,
                   filledAmount = Fin 0\<rparr> of
             Inl e \<Rightarrow> Inl e
           | Inr st \<Rightarrow>
               (let avg = (if \<not> d_isZero (filledAmount st)
                           then d_div (weightedPrice st) (filledAmount st)
                           else weightedPrice st)
                in case orders of
                     [] \<Rightarrow> Inl TypeError
                   | (None, _) # _ \<Rightarrow> Inl DecimalError
                   | (Some basePrice, _) # _ \<Rightarrow>
                       (let slippage = (if side = BuySide
                                        then d_div (d_minus avg basePrice) basePrice
                                        else d_div (d_minus basePrice avg) basePrice)
                        in Inr \<lparr>sa_filledAmount = filledAmount st,
                                sa_remainingAmount = remainingAmount st,
                                sa_averagePrice = avg,
                                sa_slippagePercent = d_mul slippage (Fin 100),
                                sa_totalCost = totalCost st\<rparr>))))"

definition isExecutable ::
  "depth_config \<Rightarrow> side_analysis \<Rightarrow> side_analysis \<Rightarrow> decimal \<Rightarrow> bool" where
  "isExecutable cfg buyAnalysis sellAnalysis targetDecimal =
     (if d_gt (sa_remainingAmount buyAnalysis) (Fin 0)
         \<or> d_gt (sa_remainingAmount sellAnalysis) (Fin 0) then False
      else if d_gt (sa_slippagePercent buyAnalysis) (da_maxSlippage cfg)
         \<or> d_gt (sa_slippagePercent sellAnalysis) (da_maxSlippage cfg) then False
      else (let buyImpact = d_div (sa_totalCost buyAnalysis) targetDecimal;
                sellImpact = d_div (sa_totalCost sellAnalysis) targetDecimal
            in if d_gt buyImpact (da_maxImpact cfg) \<or> d_gt sellImpact (da_maxImpact cfg)
               then False
               else True))"

record depth_analysis =
  buyAnalysis :: side_analysis
  sellAnalysis :: side_analysis
  analysis_timestamp :: int
  executable :: bool

text \<open>
  \<open>analyzeDepth\<close> walks the bids as the buy side and the asks as the sell side; any
  error gives \<open>null\<close>, which is \<open>None\<close>.
\<close>

definition analyzeDepth ::
  "depth_config \<Rightarrow> int \<Rightarrow> order_book \<Rightarrow> decimal_arg \<Rightarrow> depth_analysis option" where
  "analyzeDepth cfg now orderbook targetAmount =
     (case analyzeSide (bids orderbook) targetAmount BuySide of
        Inl e \<Rightarrow> None
      | Inr buyA \<Rightarrow>
          (case analyzeSide (asks orderbook) targetAmount SellSide of
             Inl e \<Rightarrow> None
           | Inr sellA \<Rightarrow>
               (case targetAmount of
                  None \<Rightarrow> None
                | Some targetDecimal \<Rightarrow>
                    Some \<lparr>buyAnalysis = buyA, sellAnalysis = sellA, analysis_timestamp = now,
                          executable = isExecutable cfg buyA sellA targetDecimal\<rparr>)))"

text \<open>
  The realized slippage of a walk in the words of the specification: a buy walks the asks
  and pays an average above the best ask, a sell walks the bids and receives an average
  below the best bid; the slippage is that distance as a fraction of the best price.
\<close>

definition spec_realized_slippage :: "book_side \<Rightarrow> decimal \<Rightarrow> decimal \<Rightarrow> decimal" where
  "spec_realized_slippage side best average =
     (if side = BuySide then d_div (d_minus average best) best
      else d_div (d_minus best average) best)"

text \<open>
  A thin book, sorted as books are: one unit at the best bid 0.05 and nine at 0.005; one
  unit at the best ask 0.06 and nine at 0.1.
\<close>

definition thin_book :: order_book where
  "thin_book =
     \<lparr>bids = [(Some (Fin (5 / 100)), Some (Fin 1)), (Some (Fin (5 / 1000)), Some (Fin 9))],
      asks = [(Some (Fin (6 / 100)), Some (Fin 1)), (Some (Fin (1 / 10)), Some (Fin 9))]\<rparr>"

text \<open>A book with 100 units at the price 5 on each side.\<close>

definition flat_book :: order_book where
  "flat_book = \<lparr>bids = [(Some (Fin 5), Some (Fin 100))], asks = [(Some (Fin 5), Some (Fin 100))]\<rparr>"

section \<open>Trade execution (class TradeExecutor)\<close>

text \<open>
  \<open>executeArbitrage\<close> is an asynchronous function: it runs until it awaits a promise of
  its environment (the price feed, the order manager, a timer), is suspended there, and is
  resumed with the value the promise settles with. Calls of it interleave at these points
  only. An execution is modelled by the point where it is suspended (\<open>pc\<close>) and a function
  \<open>resume\<close> that runs it from one such point to the next; the values the environment
  answers with are the inputs. A step runs from a resumption to the next promise of the
  environment: the program's own asynchronous helpers are run through within the step.
  The prices and thresholds are JavaScript numbers, modelled without rounding.
\<close>

record executor_config =
  executionTimeout :: int
  maxSlippagePercent :: decimal
  minProfitPercent :: decimal

definition default_executor_config :: executor_config where
  "default_executor_config =
     \<lparr>executionTimeout = 45000, maxSlippagePercent = Fin (3 / 10), minProfitPercent = Fin (1 / 2)\<rparr>"

record position =
  usdtAmount :: decimal_arg
  vrscAmount :: decimal_arg

text \<open>The opportunity handed to the executor; \<open>position\<close> may be missing.\<close>

record arb_opportunity =
  ao_buyExchange :: string
  ao_sellExchange :: string
  ao_buyPrice :: decimal
  ao_sellPrice :: decimal
  ao_position :: "position option"

text \<open>An order as \<open>createOrder\<close> returns it, and a status as \<open>getOrder\<close> returns it.\<close>

record exec_order =
  order_id :: string
  order_totalCost :: decimal_arg
  order_totalFilled :: decimal_arg
  order_price :: decimal_arg

record order_status =
  status_id :: string
  status_name :: string
  status_filled :: bool

datatype order_side = Buy | Sell

text \<open>The calls the executor makes on the order manager.\<close>

datatype om_call =
    CreateOrder string order_side decimal_arg decimal
  | CancelOrder string
  | GetOrder string

text \<open>
  What an awaited promise settles with: the call itself (\<open>Start\<close>), a price of the
  price feed (a number or \<open>null\<close>), an order or \<open>null\<close>, a status or \<open>null\<close>, nothing
  (a cancellation done, a timer fired), or a rejection (the awaited call threw).
\<close>

datatype response =
    Start
  | Price "decimal option"
  | Created "exec_order option"
  | Status "order_status option"
  | Resolved
  | Rejected

datatype pc =
    NotStarted
  | AwaitBuyPrice
  | AwaitSellPrice "decimal option"
  | AwaitBuyOrder
  | AwaitSellOrder exec_order
  | AwaitCancelFailedSell
  | AwaitBuyStatus exec_order exec_order int
  | AwaitSellStatus exec_order exec_order int "order_status option"
  | AwaitSleep exec_order exec_order int
  | AwaitCancelBuy order_status
  | AwaitCancelSell
  | AwaitTimeoutCancel
  | Finished bool

record step_result =
  next_pc :: pc
  flag_after :: bool
  issued :: "om_call list"
  logged :: "string list"

text \<open>Returning from \<open>executeArbitrage\<close> inside the \<open>try\<close>: the \<open>finally\<close> clears the flag.\<close>

definition finish :: "bool \<Rightarrow> string list \<Rightarrow> step_result" where
  "finish res msgs = \<lparr>next_pc = Finished res, flag_after = False, issued = [], logged = msgs\<rparr>"

definition suspend :: "pc \<Rightarrow> bool \<Rightarrow> om_call list \<Rightarrow> string list \<Rightarrow> step_result" where
  "suspend p flag cs msgs = \<lparr>next_pc = p, flag_after = flag, issued = cs, logged = msgs\<rparr>"

text \<open>A price that is falsy: \<open>null\<close>, zero or \<open>NaN\<close>.\<close>

definition falsy_price :: "decimal option \<Rightarrow> bool" where
  "falsy_price v = (case v of None \<Rightarrow> True | Some d \<Rightarrow> d = Fin 0 \<or> d = NaN)"

text \<open>\<open>_validatePrices\<close>, once both current prices are known: the answer and the warning.\<close>

definition exec_validatePrices ::
  "executor_config \<Rightarrow> arb_opportunity \<Rightarrow> decimal option \<Rightarrow> decimal option \<Rightarrow> bool \<times> string list" where
  "exec_validatePrices cfg opp currentBuy currentSell =
     (if falsy_price currentBuy \<or> falsy_price currentSell
      then (False, [''Unable to validate current prices''])
      else (case (currentBuy, currentSell) of
        (Some currentBuyPrice, Some currentSellPrice) \<Rightarrow>
          (let buyPriceChange =
                 d_div (d_abs (d_minus currentBuyPrice (ao_buyPrice opp))) (ao_buyPrice opp);
               sellPriceChange =
                 d_div (d_abs (d_minus currentSellPrice (ao_sellPrice opp))) (ao_sellPrice opp)
           in if d_gt buyPriceChange (maxSlippagePercent cfg)
                 \<or> d_gt sellPriceChange (maxSlippagePercent cfg)
              then (False, [''Prices have moved beyond slippage tolerance''])
              else (let spr = d_div (d_minus currentSellPrice currentBuyPrice) currentBuyPrice
                    in if d_lt spr (minProfitPercent cfg)
                       then (False, [''Profit opportunity no longer viable''])
                       else (True, [])))
      | _ \<Rightarrow> (False, [''Unable to validate current prices''])))"

text \<open>
  \<open>_checkBalances\<close> reads the available USDT of the buy exchange from the ledger; a
  missing position or an amount that is no decimal throws.
\<close>

definition checkBalances ::
  "balance_manager \<Rightarrow> arb_opportunity \<Rightarrow> js_error + (bool \<times> string list)" where
  "checkBalances ledger opp =
     (let buyExchangeBalance = getAvailableBalance ledger (ao_buyExchange opp) ''USDT''
      in case ao_position opp of
           None \<Rightarrow> Inl TypeError
         | Some pos \<Rightarrow>
             (case usdtAmount pos of
                None \<Rightarrow> Inl DecimalError
              | Some usdt \<Rightarrow>
                  (let requiredAmount = d_mul usdt (Fin (101 / 100))
                   in if d_lt buyExchangeBalance requiredAmount
                      then Inr (False, [''Insufficient balance for buy order''])
                      else Inr (True, []))))"

definition buy_request :: "arb_opportunity \<Rightarrow> position \<Rightarrow> om_call" where
  "buy_request opp pos = CreateOrder (ao_buyExchange opp) Buy (vrscAmount pos) (ao_buyPrice opp)"

definition sell_request :: "arb_opportunity \<Rightarrow> position \<Rightarrow> om_call" where
  "sell_request opp pos = CreateOrder (ao_sellExchange opp) Sell (vrscAmount pos) (ao_sellPrice opp)"

text \<open>
  The head of the loop of \<open>_monitorExecution\<close>: within the time limit the status of the
  buy order is asked for; past it, \<open>_handleTimeout\<close> cancels both orders.
\<close>

definition monitor_loop ::
  "executor_config \<Rightarrow> int \<Rightarrow> bool \<Rightarrow> exec_order \<Rightarrow> exec_order \<Rightarrow> int \<Rightarrow> string list
     \<Rightarrow> step_result" where
  "monitor_loop cfg now flag buyOrder sellOrder startTime msgs =
     (if now - startTime < executionTimeout cfg
      then suspend (AwaitBuyStatus buyOrder sellOrder startTime) flag
             [GetOrder (order_id buyOrder)] msgs
      else suspend AwaitTimeoutCancel flag
             [CancelOrder (order_id buyOrder), CancelOrder (order_id sellOrder)]
             (msgs @ [''Execution timeout reached'']))"

text \<open>\<open>_calculateFillMetrics\<close> throws on an order whose cost, fill or price is no decimal.\<close>

definition fillMetrics_throws :: "exec_order \<Rightarrow> bool" where
  "fillMetrics_throws order =
     (order_totalCost order = None \<or> order_totalFilled order = None \<or> order_price order = None)"

text \<open>
  The end of a monitoring that found both orders filled: the post-trade analysis runs, and
  an error in it is caught by \<open>executeArbitrage\<close>, which then returns false.
\<close>

definition after_success :: "exec_order \<Rightarrow> exec_order \<Rightarrow> step_result" where
  "after_success buyOrder sellOrder =
     (if fillMetrics_throws buyOrder \<or> fillMetrics_throws sellOrder
      then finish False [''Critical error in arbitrage execution:'']
      else finish True [])"

text \<open>One pass of the loop body once both statuses are there.\<close>

definition check_statuses ::
  "executor_config \<Rightarrow> int \<Rightarrow> bool \<Rightarrow> exec_order \<Rightarrow> exec_order \<Rightarrow> int
     \<Rightarrow> order_status option \<Rightarrow> order_status option \<Rightarrow> step_result" where
  "check_statuses cfg now flag buyOrder sellOrder startTime buyStatus sellStatus =
     (case (buyStatus, sellStatus) of
        (Some bs, Some ss) \<Rightarrow>
          (if status_name bs = ''filled'' \<and> status_name ss = ''filled''
           then after_success buyOrder sellOrder
           else if status_name bs = ''cancelled'' \<or> status_name ss = ''cancelled''
           then (if \<not> status_filled bs
                 then suspend (AwaitCancelBuy ss) flag [CancelOrder (status_id bs)]
                        [''Order cancelled, initiating recovery'']
                 else if \<not> status_filled ss
                 then suspend AwaitCancelSell flag [CancelOrder (status_id ss)]
                        [''Order cancelled, initiating recovery'']
                 else finish False [''Order cancelled, initiating recovery''])
           else suspend (AwaitSleep buyOrder sellOrder startTime) flag [] [])
      | _ \<Rightarrow> monitor_loop cfg now flag buyOrder sellOrder startTime
               [''Error monitoring execution:''])"

text \<open>
  The start of \<open>executeArbitrage\<close>. The flag is tested and set before the first
  \<open>await\<close>, so the test and the set are one step. A call that finds the flag set logs
  the warning and returns false at once; it is outside the \<open>try\<close>, so the flag stays.
\<close>

definition start_execution :: "bool \<Rightarrow> step_result" where
  "start_execution flag =
     (if flag
      then \<lparr>next_pc = Finished False, flag_after = flag, issued = [],
             logged = [''Trade execution already in progress'']\<rparr>
      else suspend AwaitBuyPrice True [] [])"

text \<open>
  After the second price: \<open>_validatePrices\<close> answers, \<open>_checkBalances\<close> answers, and
  \<open>_executeBuyOrder\<close> calls \<open>createOrder\<close>.
\<close>

definition after_prices ::
  "executor_config \<Rightarrow> balance_manager \<Rightarrow> arb_opportunity \<Rightarrow> bool
     \<Rightarrow> decimal option \<Rightarrow> decimal option \<Rightarrow> step_result" where
  "after_prices cfg ledger opp flag currentBuy currentSell =
     (case exec_validatePrices cfg opp currentBuy currentSell of
        (False, msgs) \<Rightarrow> finish False msgs
      | (True, msgs) \<Rightarrow>
          (case checkBalances ledger opp of
             Inl e \<Rightarrow> finish False (msgs @ [''Critical error in arbitrage execution:''])
           | Inr (False, msgs') \<Rightarrow> finish False (msgs @ msgs')
           | Inr (True, msgs') \<Rightarrow>
               (case ao_position opp of
                  None \<Rightarrow> finish False (msgs @ msgs' @ [''Error executing buy order:''])
                | Some pos \<Rightarrow>
                    suspend AwaitBuyOrder flag [buy_request opp pos] (msgs @ msgs'))))"

text \<open>
  After \<open>createOrder\<close> for the sell order failed (it returned \<open>null\<close> or threw):
  \<open>_handleFailedSell\<close> cancels the buy order.
\<close>

definition handleFailedSell :: "bool \<Rightarrow> exec_order \<Rightarrow> string list \<Rightarrow> step_result" where
  "handleFailedSell flag buyOrder msgs =
     suspend AwaitCancelFailedSell flag [CancelOrder (order_id buyOrder)] msgs"

text \<open>
  \<open>resume\<close>: one step of an execution. The arguments are the configuration, the ledger,
  the opportunity of the call, the clock reading, the value the execution is resumed with,
  the flag \<open>isExecuting\<close> and the point where the execution is suspended. A value that
  the suspended execution does not wait for leaves everything as it is.
\<close>

definition resume ::
  "executor_config \<Rightarrow> balance_manager \<Rightarrow> arb_opportunity \<Rightarrow> int \<Rightarrow> response \<Rightarrow> bool \<Rightarrow> pc
     \<Rightarrow> step_result" where
  "resume cfg ledger opp now resp flag p =
     (let stay = suspend p flag [] [] in
      case p of
        NotStarted \<Rightarrow>
          (case resp of Start \<Rightarrow> start_execution flag | _ \<Rightarrow> stay)
      | AwaitBuyPrice \<Rightarrow>
          (case resp of Price v \<Rightarrow> suspend (AwaitSellPrice v) flag [] [] | _ \<Rightarrow> stay)
      | AwaitSellPrice currentBuy \<Rightarrow>
          (case resp of Price v \<Rightarrow> after_prices cfg ledger opp flag currentBuy v | _ \<Rightarrow> stay)
      | AwaitBuyOrder \<Rightarrow>
          (case resp of
             Created None \<Rightarrow> finish False [''Failed to create buy order'']
           | Rejected \<Rightarrow> finish False [''Error executing buy order:'']
           | Created (Some buyOrder) \<Rightarrow>
               (case ao_position opp of
                  None \<Rightarrow> handleFailedSell flag buyOrder [''Error executing sell order:'']
                | Some pos \<Rightarrow> suspend (AwaitSellOrder buyOrder) flag [sell_request opp pos] [])
           | _ \<Rightarrow> stay)
      | AwaitSellOrder buyOrder \<Rightarrow>
          (case resp of
             Created None \<Rightarrow> handleFailedSell flag buyOrder [''Failed to create sell order'']
           | Rejected \<Rightarrow> handleFailedSell flag buyOrder [''Error executing sell order:'']
           | Created (Some sellOrder) \<Rightarrow> monitor_loop cfg now flag buyOrder sellOrder now []
           | _ \<Rightarrow> stay)
      | AwaitCancelFailedSell \<Rightarrow>
          (case resp of
             Resolved \<Rightarrow> finish False []
           | Rejected \<Rightarrow> finish False [''Error handling failed sell:'']
           | _ \<Rightarrow> stay)
      | AwaitBuyStatus buyOrder sellOrder startTime \<Rightarrow>
          (case resp of
             Status buyStatus \<Rightarrow>
               suspend (AwaitSellStatus buyOrder sellOrder startTime buyStatus) flag
                 [GetOrder (order_id sellOrder)] []
           | Rejected \<Rightarrow>
               monitor_loop cfg now flag buyOrder sellOrder startTime
                 [''Error monitoring execution:'']
           | _ \<Rightarrow> stay)
      | AwaitSellStatus buyOrder sellOrder startTime buyStatus \<Rightarrow>
          (case resp of
             Status sellStatus \<Rightarrow>
               check_statuses cfg now flag buyOrder sellOrder startTime buyStatus sellStatus
           | Rejected \<Rightarrow>
               monitor_loop cfg now flag buyOrder sellOrder startTime
                 [''Error monitoring execution:'']
           | _ \<Rightarrow> stay)
      | AwaitSleep buyOrder sellOrder startTime \<Rightarrow>
          (case resp of
             Resolved \<Rightarrow> monitor_loop cfg now flag buyOrder sellOrder startTime []
           | _ \<Rightarrow> stay)
      | AwaitCancelBuy sellStatus \<Rightarrow>
          (case resp of
             Resolved \<Rightarrow>
               (if \<not> status_filled sellStatus
                then suspend AwaitCancelSell flag [CancelOrder (status_id sellStatus)] []
                else finish False [])
           | Rejected \<Rightarrow> finish False [''Error handling cancellation:'']
           | _ \<Rightarrow> stay)
      | AwaitCancelSell \<Rightarrow>
          (case resp of
             Resolved \<Rightarrow> finish False []
           | Rejected \<Rightarrow> finish False [''Error handling cancellation:'']
           | _ \<Rightarrow> stay)
      | AwaitTimeoutCancel \<Rightarrow>
          (case resp of
             Resolved \<Rightarrow> finish False []
           | Rejected \<Rightarrow> finish False [''Error handling timeout:'']
           | _ \<Rightarrow> stay)
      | Finished res \<Rightarrow> stay)"




text \<open>
  \<open>_handleFailedSell\<close> called on its own, with the buy order it is given (\<open>None\<close> for
  \<open>null\<close>, whose \<open>id\<close> cannot be read) and the outcome of the cancellation: the calls
  it makes on the order manager and the errors it logs. Every error is caught inside it.
\<close>

definition handleFailedSell_method :: "exec_order option \<Rightarrow> response \<Rightarrow> om_call list \<times> string list" where
  "handleFailedSell_method buyOrder cancelOutcome =
     (case buyOrder of
        None \<Rightarrow> ([], [''Error handling failed sell:''])
      | Some b \<Rightarrow>
          ([CancelOrder (order_id b)],
           if cancelOutcome = Rejected then [''Error handling failed sell:''] else []))"

subsection \<open>One execution alone\<close>

record execution =
  exec_pc :: pc
  exec_flag :: bool
  exec_calls :: "om_call list"
  exec_log :: "string list"




definition sell_failed :: "response \<Rightarrow> bool" where
  "sell_failed r = (r = Created None \<or> r = Rejected)"



subsection \<open>Several calls on one executor\<close>

text \<open>
  The calls of \<open>executeArbitrage\<close> on one executor share the flag. A schedule names, event
  by event, the call that runs next, the clock reading and the value it is resumed with.
\<close>

record executor_system =
  isExecuting :: bool
  procs :: "(arb_opportunity \<times> pc) list"
  calls :: "(nat \<times> om_call) list"
  warnings :: "(nat \<times> string) list"

definition new_system :: "arb_opportunity list \<Rightarrow> executor_system" where
  "new_system opps =
     \<lparr>isExecuting = False, procs = map (\<lambda>opp. (opp, NotStarted)) opps, calls = [], warnings = []\<rparr>"

definition system_step ::
  "executor_config \<Rightarrow> balance_manager \<Rightarrow> executor_system \<Rightarrow> nat \<times> int \<times> response
     \<Rightarrow> executor_system" where
  "system_step cfg ledger s ev =
     (case ev of (i, now, resp) \<Rightarrow>
        if i < length (procs s)
        then (let opp = fst (procs s ! i);
                  r = resume cfg ledger opp now resp (isExecuting s) (snd (procs s ! i))
              in \<lparr>isExecuting = flag_after r,
                  procs = (procs s)[i := (opp, next_pc r)],
                  calls = calls s @ map (Pair i) (issued r),
                  warnings = warnings s @ map (Pair i) (logged r)\<rparr>)
        else s)"

definition run_system ::
  "executor_config \<Rightarrow> balance_manager \<Rightarrow> executor_system \<Rightarrow> (nat \<times> int \<times> response) list
     \<Rightarrow> executor_system" where
  "run_system cfg ledger s evs = foldl (system_step cfg ledger) s evs"

text \<open>An execution is in progress from its start to its return.\<close>

fun in_progress :: "pc \<Rightarrow> bool" where
  "in_progress NotStarted = False"
| "in_progress (Finished res) = False"
| "in_progress _ = True"

definition running :: "executor_system \<Rightarrow> nat \<Rightarrow> bool" where
  "running s i = (i < length (procs s) \<and> in_progress (snd (procs s ! i)))"


text \<open>At most one execution is in progress, and the flag is set exactly while one is.\<close>

definition mutex :: "executor_system \<Rightarrow> bool" where
  "mutex s = ((\<forall>i j. running s i \<and> running s j \<longrightarrow> i = j)
              \<and> (isExecuting s = (\<exists>i. running s i)))"

text \<open>
  Concrete inputs: a ledger with 1000 USDT on exchange \<open>a\<close>; an opportunity to buy one
  unit on \<open>a\<close> at 100 and sell it on \<open>b\<close> at 150; and a buy order as a placement
  returns it.
\<close>

definition sample_ledger :: balance_manager where
  "sample_ledger = snd (updateBalance new_balance_manager ''a'' ''USDT'' (Some (Fin 1000)))"

definition sample_opportunity :: arb_opportunity where
  "sample_opportunity =
     \<lparr>ao_buyExchange = ''a'', ao_sellExchange = ''b'', ao_buyPrice = Fin 100,
      ao_sellPrice = Fin 150,
      ao_position = Some \<lparr>usdtAmount = Some (Fin 100), vrscAmount = Some (Fin 1)\<rparr>\<rparr>"


text \<open>Two calls on one executor; the first has started and waits for its second price.\<close>

definition first_call_running :: executor_system where
  "first_call_running =
     run_system default_executor_config sample_ledger
       (new_system [sample_opportunity, sample_opportunity])
       [(0, 1, Start), (0, 2, Price (Some (Fin 100)))]"

section \<open>Properties of the circuit breaker\<close>

lemma state_of_step_half_open:
  "state_of (apply_breaker_op cb op) name = HalfOpen \<Longrightarrow>
   state_of cb name = Open \<or> state_of cb name = HalfOpen"
  by (cases op)
     (auto simp: state_of_def isOpen_def onSuccess_def onError_def reset_def resetAll_def
        getMonitor_def setMonitor_def transitionToOpen_def transitionToHalfOpen_def
        transitionToClosed_def new_monitor_def Let_def
        split: option.splits if_splits prod.splits)

lemma breaker_history_length: "length (breaker_history cb name ops) = Suc (length ops)"
  by (induction ops arbitrary: cb) auto

lemma breaker_history_first: "breaker_history cb name ops ! 0 = state_of cb name"
  by (cases ops) auto

lemmas breaker_defs =
  state_of_def isOpen_def onSuccess_def onError_def reset_def resetAll_def
  getMonitor_def setMonitor_def transitionToOpen_def transitionToHalfOpen_def
  transitionToClosed_def new_monitor_def default_breaker_def run_breaker_def
  trip_and_probe_def Let_def

text \<open>
  Claim C5. The breaker never goes from closed to half-open directly: in the states a
  venue goes through under any operations, started from any breaker, a half-open state
  follows an open state or a half-open state (the breaker staying half-open), so the state
  before the breaker became half-open is open, never closed.
\<close>

theorem half_open_only_from_open:
  assumes "Suc i < length (breaker_history cb name ops)"
    and "breaker_history cb name ops ! Suc i = HalfOpen"
  shows "breaker_history cb name ops ! i = Open \<or> breaker_history cb name ops ! i = HalfOpen"
  using assms
proof (induction ops arbitrary: cb i)
  case Nil
  then show ?case by simp
next
  case (Cons op ops)
  show ?case
  proof (cases i)
    case 0
    with Cons.prems have "state_of (apply_breaker_op cb op) name = HalfOpen"
      by (simp add: breaker_history_first)
    then show ?thesis using 0 by (simp add: state_of_step_half_open)
  next
    case (Suc j)
    with Cons.prems Cons.IH[of j "apply_breaker_op cb op"] show ?thesis by simp
  qed
qed

theorem half_open_only_from_open_witness:
  "Suc 6 < length (breaker_history default_breaker ''v'' trip_and_probe)
   \<and> breaker_history default_breaker ''v'' trip_and_probe ! Suc 6 = HalfOpen
   \<and> breaker_history default_breaker ''v'' trip_and_probe ! 6 = Open"
proof -
  have len: "Suc 6 < length (breaker_history default_breaker ''v'' trip_and_probe)"
    by (simp add: breaker_history_length trip_and_probe_def)
  have half: "breaker_history default_breaker ''v'' trip_and_probe ! Suc 6 = HalfOpen"
    by (simp add: breaker_defs)
  have "breaker_history default_breaker ''v'' trip_and_probe ! 6 \<noteq> HalfOpen"
    by (simp add: breaker_defs)
  with half_open_only_from_open [OF len half] len half show ?thesis by simp
qed

text \<open>
  Claim C1, as the code has it. The breaker has no recovery threshold: \<open>onSuccess\<close>
  closes a half-open breaker at the first success. The counter
  \<open>consecutiveSuccesses\<close> is set to zero by the transitions and never counted up or read.
\<close>

theorem half_open_closes_on_first_success:
  "state_of cb name = HalfOpen \<Longrightarrow> state_of (onSuccess cb now name) name = Closed"
  by (auto simp: state_of_def onSuccess_def getMonitor_def setMonitor_def
        transitionToClosed_def Let_def split: option.splits)

theorem half_open_closes_on_first_success_witness:
  "state_of (run_breaker default_breaker trip_and_probe) ''v'' = HalfOpen
   \<and> state_of (onSuccess (run_breaker default_breaker trip_and_probe) 70001 ''v'') ''v'' = Closed"
proof -
  have h: "state_of (run_breaker default_breaker trip_and_probe) ''v'' = HalfOpen"
    by (simp add: breaker_defs)
  from half_open_closes_on_first_success [OF h] h show ?thesis by simp
qed

text \<open>
  Claim C1, as stated, fails: one success, fewer than the three of the claim, does not
  leave the half-open breaker of venue \<open>v\<close> half-open.
\<close>

theorem recovery_threshold_counterexample:
  "state_of (run_breaker default_breaker trip_and_probe) ''v'' = HalfOpen
   \<and> (1::nat) < 3
   \<and> state_of (run_breaker default_breaker (trip_and_probe @ [OnSuccess 70001 ''v''])) ''v''
       \<noteq> HalfOpen"
  by (simp add: breaker_defs)

section \<open>Properties of the price validation\<close>

lemma d_lt_irrefl: "\<not> d_lt x x"
  by (cases x) auto

lemmas validator_defs =
  validatePrice_def validatePrice_try_def default_validator_config_def isValidNumber_def
  isWithinRange_def isWithinDeviation_def calculateAverage_def d_gte_def d_lte_def d_gt_def
  d_minus_def isPriceFresh_def other_checks_pass_def sample_context_def empty_context_def
  updatePriceHistory_def malformed_price_def

text \<open>
  Claim C9. A price equal to \<open>maxPrice\<close> is accepted, and so is a price equal to
  \<open>minPrice\<close>, when the other checks pass (the number check, the other bound, the
  deviation from the recent prices, the freshness); a price above \<open>maxPrice\<close> is
  rejected whatever the context is.
\<close>

theorem price_range_boundary:
  "(other_checks_pass cfg now p context \<and> p = maxPrice cfg \<and> d_gte p (minPrice cfg)
      \<longrightarrow> fst (validatePrice cfg now h (Some p) (Some context)))
   \<and> (other_checks_pass cfg now p context \<and> p = minPrice cfg \<and> d_lte p (maxPrice cfg)
      \<longrightarrow> fst (validatePrice cfg now h (Some p) (Some context)))
   \<and> (d_gt p (maxPrice cfg) \<longrightarrow> \<not> fst (validatePrice cfg now h (Some p) ctx))"
proof (intro conjI impI)
  assume a: "other_checks_pass cfg now p context \<and> p = maxPrice cfg \<and> d_gte p (minPrice cfg)"
  then have "isValidNumber (Some p)"
    by (auto simp: other_checks_pass_def)
  then obtain r where r: "p = Fin r"
    by (cases p) (simp_all add: isValidNumber_def)
  with a show "fst (validatePrice cfg now h (Some p) (Some context))"
    by (auto simp: validatePrice_def validatePrice_try_def other_checks_pass_def
        isWithinRange_def d_gte_def d_lte_def d_lt_irrefl split: option.splits)
next
  assume a: "other_checks_pass cfg now p context \<and> p = minPrice cfg \<and> d_lte p (maxPrice cfg)"
  then have "isValidNumber (Some p)"
    by (auto simp: other_checks_pass_def)
  then obtain r where r: "p = Fin r"
    by (cases p) (simp_all add: isValidNumber_def)
  with a show "fst (validatePrice cfg now h (Some p) (Some context))"
    by (auto simp: validatePrice_def validatePrice_try_def other_checks_pass_def
        isWithinRange_def d_gte_def d_lte_def d_lt_irrefl split: option.splits)
next
  assume "d_gt p (maxPrice cfg)"
  then show "\<not> fst (validatePrice cfg now h (Some p) ctx)"
    by (auto simp: validatePrice_def validatePrice_try_def
        isWithinRange_def d_gte_def d_lte_def d_gt_def split: option.splits sum.splits)
qed

theorem price_range_boundary_witness:
  "other_checks_pass default_validator_config 1000 (Fin 1000000) sample_context
   \<and> Fin 1000000 = maxPrice default_validator_config
   \<and> d_gte (Fin 1000000) (minPrice default_validator_config)
   \<and> fst (validatePrice default_validator_config 1000 Map.empty (Some (Fin 1000000))
           (Some sample_context))
   \<and> other_checks_pass default_validator_config 1000 (Fin (1 / 100000)) empty_context
   \<and> Fin (1 / 100000) = minPrice default_validator_config
   \<and> d_lte (Fin (1 / 100000)) (maxPrice default_validator_config)
   \<and> fst (validatePrice default_validator_config 1000 Map.empty (Some (Fin (1 / 100000)))
           (Some empty_context))
   \<and> d_gt (Fin 1000001) (maxPrice default_validator_config)
   \<and> \<not> fst (validatePrice default_validator_config 1000 Map.empty (Some (Fin 1000001))
             (Some sample_context))"
proof -
  have a: "other_checks_pass default_validator_config 1000 (Fin 1000000) sample_context
     \<and> Fin 1000000 = maxPrice default_validator_config
     \<and> d_gte (Fin 1000000) (minPrice default_validator_config)"
    by (simp add: validator_defs)
  have b: "other_checks_pass default_validator_config 1000 (Fin (1 / 100000)) empty_context
     \<and> Fin (1 / 100000) = minPrice default_validator_config
     \<and> d_lte (Fin (1 / 100000)) (maxPrice default_validator_config)"
    by (simp add: validator_defs)
  have c: "d_gt (Fin 1000001) (maxPrice default_validator_config)"
    by (simp add: validator_defs)
  from a b c
    price_range_boundary [of default_validator_config 1000 "Fin 1000000" sample_context
      Map.empty "Some sample_context"]
    price_range_boundary [of default_validator_config 1000 "Fin (1 / 100000)" empty_context
      Map.empty "Some sample_context"]
    price_range_boundary [of default_validator_config 1000 "Fin 1000001" sample_context
      Map.empty "Some sample_context"]
  show ?thesis by blast
qed

text \<open>
  Claim C10, as the code has it. \<open>validatePrice\<close> always returns a boolean, and every
  answer false leaves the price history as it was: an error raised inside the \<open>try\<close>
  block is caught and answered with false, and the history is written in the last step
  only. A price that is no number, \<open>NaN\<close>, infinite or negative is answered with false
  whatever the configuration and the context are. The price zero is answered with false
  when the configured \<open>minPrice\<close> is above zero (the default is 0.00001): zero passes
  the number check, whose \<open>isPositive\<close> is true of zero, and is rejected by the range
  check.
\<close>

theorem validatePrice_rejects_malformed:
  "(\<not> fst (validatePrice cfg now h price ctx) \<longrightarrow> snd (validatePrice cfg now h price ctx) = h)
   \<and> (malformed_price price \<and> price \<noteq> Some (Fin 0)
        \<longrightarrow> validatePrice cfg now h price ctx = (False, h))
   \<and> (d_lt (Fin 0) (minPrice cfg)
        \<longrightarrow> validatePrice cfg now h (Some (Fin 0)) ctx = (False, h))"
proof (intro conjI impI)
  assume "\<not> fst (validatePrice cfg now h price ctx)"
  then show "snd (validatePrice cfg now h price ctx) = h"
    by (auto simp: validatePrice_def validatePrice_try_def
        split: sum.splits option.splits if_splits)
next
  assume a: "malformed_price price \<and> price \<noteq> Some (Fin 0)"
  have "\<not> isValidNumber price"
  proof (cases price)
    case None
    then show ?thesis by (simp add: isValidNumber_def)
  next
    case (Some d)
    with a show ?thesis
      by (cases d) (auto simp: isValidNumber_def malformed_price_def)
  qed
  then show "validatePrice cfg now h price ctx = (False, h)"
    by (simp add: validatePrice_def validatePrice_try_def)
next
  assume a: "d_lt (Fin 0) (minPrice cfg)"
  then have "\<not> d_gte (Fin 0) (minPrice cfg)"
    by (cases "minPrice cfg") (auto simp: d_gte_def d_lte_def)
  then show "validatePrice cfg now h (Some (Fin 0)) ctx = (False, h)"
    by (simp add: validatePrice_def validatePrice_try_def isWithinRange_def isValidNumber_def)
qed

theorem validatePrice_rejects_malformed_witness:
  "\<not> fst (validatePrice default_validator_config 1000 Map.empty (Some (Fin 2000000))
           (Some sample_context))
   \<and> snd (validatePrice default_validator_config 1000 Map.empty (Some (Fin 2000000))
           (Some sample_context)) = Map.empty
   \<and> d_lt (Fin 0) (minPrice default_validator_config)
   \<and> malformed_price None \<and> malformed_price (Some NaN) \<and> malformed_price (Some (Fin 0))
   \<and> malformed_price (Some (Fin (- 5))) \<and> malformed_price (Some PInf)
   \<and> validatePrice default_validator_config 1000 Map.empty None (Some sample_context)
       = (False, Map.empty)
   \<and> validatePrice default_validator_config 1000 Map.empty (Some NaN) (Some sample_context)
       = (False, Map.empty)
   \<and> validatePrice default_validator_config 1000 Map.empty (Some (Fin 0)) (Some sample_context)
       = (False, Map.empty)
   \<and> validatePrice default_validator_config 1000 Map.empty (Some (Fin (- 5))) None
       = (False, Map.empty)
   \<and> validatePrice default_validator_config 1000 Map.empty (Some PInf) (Some sample_context)
       = (False, Map.empty)"
proof -
  have f: "\<not> fst (validatePrice default_validator_config 1000 Map.empty (Some (Fin 2000000))
           (Some sample_context))"
    by (simp add: validator_defs)
  have a: "d_lt (Fin 0) (minPrice default_validator_config)"
    by (simp add: default_validator_config_def)
  have m: "malformed_price None \<and> malformed_price (Some NaN) \<and> malformed_price (Some (Fin 0))
     \<and> malformed_price (Some (Fin (- 5))) \<and> malformed_price (Some PInf)"
    by (simp add: malformed_price_def)
  have n: "(None :: decimal_arg) \<noteq> Some (Fin 0) \<and> Some NaN \<noteq> Some (Fin 0)
     \<and> Some (Fin (- 5)) \<noteq> Some (Fin 0) \<and> Some PInf \<noteq> Some (Fin 0)"
    by simp
  from f a m n
    validatePrice_rejects_malformed [of default_validator_config 1000 Map.empty
      "Some (Fin 2000000)" "Some sample_context"]
    validatePrice_rejects_malformed [of default_validator_config 1000 Map.empty None
      "Some sample_context"]
    validatePrice_rejects_malformed [of default_validator_config 1000 Map.empty "Some NaN"
      "Some sample_context"]
    validatePrice_rejects_malformed [of default_validator_config 1000 Map.empty
      "Some (Fin (- 5))" None]
    validatePrice_rejects_malformed [of default_validator_config 1000 Map.empty "Some PInf"
      "Some sample_context"]
  show ?thesis by blast
qed

text \<open>
  Claim C10, as stated, fails for the price zero when the validator is configured with a
  minimum price of zero: the price passes the number check and the range check, the call
  returns true and the price is written to the history of the venue.
\<close>

theorem zero_accepted_counterexample:
  "malformed_price (Some (Fin 0))
   \<and> fst (validatePrice zero_minimum_config 1000 Map.empty (Some (Fin 0)) (Some venue_context))
   \<and> snd (validatePrice zero_minimum_config 1000 Map.empty (Some (Fin 0)) (Some venue_context))
        ''v''
       = Some [\<lparr>entry_price = Some (Fin 0), entry_timestamp = 1000\<rparr>]"
  by (simp add: validator_defs zero_minimum_config_def venue_context_def)

section \<open>Properties of the balance ledger\<close>

lemmas ledger_defs =
  run_ledger_def new_balance_manager_def usd_usdt_ops_def one_reservation_def
  updateBalance_def reserveBalance_def releaseBalance_def reserveTimeout_def
  getAvailableBalance_def getReservedBalance_def getBalance_def getKey_def reserveKey_of_def
  toLowerCase_def toUpperCase_def toLowerCase_char_def toUpperCase_char_def
  d_max_def d_minus_def d_gt_def Let_def

lemma delete_update_fresh:
  "map_of al k = None \<Longrightarrow> AList.delete k (AList.update k v al) = al"
  by (induction al) auto

text \<open>
  Claim C4, at the input where the code departs from it. The ledger holds 100 USD and
  100 USDT on exchange \<open>ex\<close> and one live reservation, of 50 USDT for order \<open>o1\<close>. No
  reservation was made for the pair (ex, USD), so the claim gives 100 available USD. The
  code gives 50: the key \<open>ex_USD\<close> of the pair is a prefix of the reservation's key
  \<open>ex_USDT_o1\<close>, and \<open>getReservedBalance\<close> counts every reservation whose key starts
  with the key of the pair.
\<close>

theorem available_counts_other_currency:
  "getBalance (run_ledger new_balance_manager usd_usdt_ops) ''ex'' ''USD'' = Fin 100
   \<and> map fst (reservedBalances (run_ledger new_balance_manager usd_usdt_ops))
       = [reserveKey_of ''ex'' ''USDT'' ''o1'']
   \<and> getKey ''ex'' ''USD'' \<noteq> getKey ''ex'' ''USDT''
   \<and> getReservedBalance (run_ledger new_balance_manager usd_usdt_ops) ''ex'' ''USD'' = Fin 50
   \<and> getAvailableBalance (run_ledger new_balance_manager usd_usdt_ops) ''ex'' ''USD'' = Fin 50"
  by (simp add: ledger_defs)

text \<open>
  Claim C7, as the code has it. When a reservation succeeds and no live reservation was
  stored under the same key (exchange, currency and order id), releasing it succeeds and
  gives back the ledger of before the reservation: the available balance of every pair
  is what it was.
\<close>

theorem reserve_release_restores_available:
  assumes "map_of (reservedBalances bm) (reserveKey_of ex c oid) = None"
    and "reserveBalance bm now ex c amt oid = (True, bm1)"
    and "releaseBalance bm1 ex c oid = (r, bm2)"
  shows "r \<and> getAvailableBalance bm2 ex' c' = getAvailableBalance bm ex' c'"
proof -
  from assms have "r \<and> bm2 = bm"
    by (auto simp: reserveBalance_def releaseBalance_def delete_update_fresh update_conv'
        split: option.splits if_splits)
  then show ?thesis by simp
qed

theorem reserve_release_restores_available_witness:
  "map_of (reservedBalances one_reservation) (reserveKey_of ''ex'' ''USDT'' ''o2'') = None
   \<and> fst (reserveBalance one_reservation 2000 ''ex'' ''USDT'' (Some (Fin 10)) ''o2'')
   \<and> getAvailableBalance
        (snd (reserveBalance one_reservation 2000 ''ex'' ''USDT'' (Some (Fin 10)) ''o2''))
        ''ex'' ''USDT'' = Fin 60
   \<and> fst (releaseBalance
            (snd (reserveBalance one_reservation 2000 ''ex'' ''USDT'' (Some (Fin 10)) ''o2''))
            ''ex'' ''USDT'' ''o2'')
   \<and> getAvailableBalance
        (snd (releaseBalance
               (snd (reserveBalance one_reservation 2000 ''ex'' ''USDT'' (Some (Fin 10)) ''o2''))
               ''ex'' ''USDT'' ''o2''))
        ''ex'' ''USDT''
       = getAvailableBalance one_reservation ''ex'' ''USDT''"
proof -
  have fresh: "map_of (reservedBalances one_reservation) (reserveKey_of ''ex'' ''USDT'' ''o2'')
      = None"
    by (simp add: ledger_defs)
  have ok: "fst (reserveBalance one_reservation 2000 ''ex'' ''USDT'' (Some (Fin 10)) ''o2'')"
    by (simp add: ledger_defs)
  have during: "getAvailableBalance
        (snd (reserveBalance one_reservation 2000 ''ex'' ''USDT'' (Some (Fin 10)) ''o2''))
        ''ex'' ''USDT'' = Fin 60"
    by (simp add: ledger_defs)
  from ok have res: "reserveBalance one_reservation 2000 ''ex'' ''USDT'' (Some (Fin 10)) ''o2''
      = (True, snd (reserveBalance one_reservation 2000 ''ex'' ''USDT'' (Some (Fin 10)) ''o2''))"
    by (cases "reserveBalance one_reservation 2000 ''ex'' ''USDT'' (Some (Fin 10)) ''o2''") simp
  from reserve_release_restores_available [OF fresh res surjective_pairing,
      of "''ex''" "''USDT''"] fresh ok during
  show ?thesis by simp
qed

text \<open>
  Claim C7, as stated, fails when the order id already has a live reservation for the
  pair: the new reservation replaces the old one, and the release removes it. With 100 USDT
  and 30 reserved for order \<open>o1\<close>, 70 are available; reserving 10 for \<open>o1\<close> again
  succeeds, and after the release 100 are available.
\<close>

theorem reserve_release_counterexample:
  "getAvailableBalance one_reservation ''ex'' ''USDT'' = Fin 70
   \<and> fst (reserveBalance one_reservation 2000 ''ex'' ''USDT'' (Some (Fin 10)) ''o1'')
   \<and> fst (releaseBalance
            (snd (reserveBalance one_reservation 2000 ''ex'' ''USDT'' (Some (Fin 10)) ''o1''))
            ''ex'' ''USDT'' ''o1'')
   \<and> getAvailableBalance
        (snd (releaseBalance
               (snd (reserveBalance one_reservation 2000 ''ex'' ''USDT'' (Some (Fin 10)) ''o1''))
               ''ex'' ''USDT'' ''o1''))
        ''ex'' ''USDT'' = Fin 100"
  by (simp add: ledger_defs)

section \<open>Properties of the opportunity detection\<close>

lemmas detector_defs =
  checkPair_def calculateSpread_def calculateProfit_def det_validatePrices_def
  or_zero_def d_min_def d_gt_def d_minus_def one_percent_config_def default_detector_config_def
  entry_a_def entry_b_def detectArbitrage_def getUniqueExchanges_def
  filterBestOpportunities_def Let_def

text \<open>
  Claim C2, at the input where the code departs from it. \<open>_calculateSpread\<close> returns the
  spread in percent, and \<open>_checkPair\<close> compares it with \<open>minSpreadPercent / 100\<close>: the
  threshold applied is a hundredth of the configured one. With a minimum spread of 1 percent,
  buying at 100 and selling at 100.8 is a spread of 0.8 percent, below the minimum; the
  detector emits the opportunity (its profit, 300, passes the profit check).
\<close>

theorem spread_below_minimum_emitted:
  "map spread (detectArbitrage one_percent_config 2000 [(''a'', entry_a), (''b'', entry_b)])
     = [Fin (8 / 10)]
   \<and> d_lt (Fin (8 / 10)) (minSpreadPercent one_percent_config)
   \<and> map buyExchange (detectArbitrage one_percent_config 2000 [(''a'', entry_a), (''b'', entry_b)])
       = [''a'']
   \<and> map sellExchange (detectArbitrage one_percent_config 2000 [(''a'', entry_a), (''b'', entry_b)])
       = [''b'']
   \<and> map profit (detectArbitrage one_percent_config 2000 [(''a'', entry_a), (''b'', entry_b)])
       = [Fin 300]"
  by (simp add: detector_defs)

section \<open>Properties of the depth analysis\<close>

lemmas depth_defs =
  analyzeDepth_def analyzeSide_def isExecutable_def spec_realized_slippage_def
  default_depth_config_def flat_book_def thin_book_def
  d_min_def d_gt_def d_lte_def d_minus_def d_isZero_def Let_def

text \<open>
  Claim C6, at an input where the code departs from it. On the thin book a target of 10 is
  absorbed on both sides. The bid walk fills at an average of 0.0095, which is 81 percent
  below the best bid; the ask walk fills at an average of 0.096, which is 60 percent above
  the best ask: both realized slippages are far above \<open>maxSlippage\<close>, 0.3 percent, so
  the claim gives not executable. The code reports the order executable.
  \<open>analyzeDepth\<close> applies the formula of a buy to the bids and the formula of a sell
  to the asks, so the slippage figures it checks are -81 and -60, and a negative figure
  passes the check.
\<close>

theorem executable_beyond_slippage:
  "map_option executable (analyzeDepth default_depth_config 0 thin_book (Some (Fin 10)))
     = Some True
   \<and> map_option (sa_remainingAmount \<circ> buyAnalysis)
        (analyzeDepth default_depth_config 0 thin_book (Some (Fin 10))) = Some (Fin 0)
   \<and> map_option (sa_remainingAmount \<circ> sellAnalysis)
        (analyzeDepth default_depth_config 0 thin_book (Some (Fin 10))) = Some (Fin 0)
   \<and> map_option (sa_averagePrice \<circ> buyAnalysis)
        (analyzeDepth default_depth_config 0 thin_book (Some (Fin 10)))
       = Some (Fin (95 / 10000))
   \<and> map_option (sa_averagePrice \<circ> sellAnalysis)
        (analyzeDepth default_depth_config 0 thin_book (Some (Fin 10)))
       = Some (Fin (96 / 1000))
   \<and> spec_realized_slippage SellSide (Fin (5 / 100)) (Fin (95 / 10000)) = Fin (81 / 100)
   \<and> spec_realized_slippage BuySide (Fin (6 / 100)) (Fin (96 / 1000)) = Fin (6 / 10)
   \<and> d_gt (Fin (81 / 100)) (da_maxSlippage default_depth_config)
   \<and> d_gt (Fin (6 / 10)) (da_maxSlippage default_depth_config)
   \<and> map_option (sa_slippagePercent \<circ> buyAnalysis)
        (analyzeDepth default_depth_config 0 thin_book (Some (Fin 10))) = Some (Fin (- 81))
   \<and> map_option (sa_slippagePercent \<circ> sellAnalysis)
        (analyzeDepth default_depth_config 0 thin_book (Some (Fin 10))) = Some (Fin (- 60))"
  by (simp add: depth_defs)

text \<open>
  The other two gates of \<open>_isExecutable\<close> depart from the claim as well. On the flat book a
  target of 10 is absorbed on both sides with no slippage at all, and the order is reported
  not executable: the market impact the code compares with \<open>maxImpact\<close>, 0.1, is the cost
  50 of a walk divided by the target, which is the average price 5.
\<close>

lemma absorbed_without_slippage_not_executable:
  "map_option executable (analyzeDepth default_depth_config 0 flat_book (Some (Fin 10)))
     = Some False
   \<and> map_option (sa_remainingAmount \<circ> buyAnalysis)
        (analyzeDepth default_depth_config 0 flat_book (Some (Fin 10))) = Some (Fin 0)
   \<and> map_option (sa_remainingAmount \<circ> sellAnalysis)
        (analyzeDepth default_depth_config 0 flat_book (Some (Fin 10))) = Some (Fin 0)
   \<and> map_option (sa_slippagePercent \<circ> buyAnalysis)
        (analyzeDepth default_depth_config 0 flat_book (Some (Fin 10))) = Some (Fin 0)
   \<and> map_option (sa_slippagePercent \<circ> sellAnalysis)
        (analyzeDepth default_depth_config 0 flat_book (Some (Fin 10))) = Some (Fin 0)
   \<and> map_option (sa_totalCost \<circ> buyAnalysis)
        (analyzeDepth default_depth_config 0 flat_book (Some (Fin 10))) = Some (Fin 50)"
  by (simp add: depth_defs)

section \<open>Properties of the trade execution\<close>

lemmas resume_defs = resume_def start_execution_def after_prices_def handleFailedSell_def
  monitor_loop_def check_statuses_def after_success_def finish_def suspend_def Let_def

lemma resume_finished:
  "resume cfg ledger opp now resp flag (Finished res)
     = \<lparr>next_pc = Finished res, flag_after = flag, issued = [], logged = []\<rparr>"
  by (simp add: resume_defs)

lemma resume_not_started:
  "resume cfg ledger opp now resp flag NotStarted =
     (if resp = Start
      then (if flag then \<lparr>next_pc = Finished False, flag_after = True, issued = [],
                          logged = [''Trade execution already in progress'']\<rparr>
            else \<lparr>next_pc = AwaitBuyPrice, flag_after = True, issued = [], logged = []\<rparr>)
      else \<lparr>next_pc = NotStarted, flag_after = flag, issued = [], logged = []\<rparr>)"
  by (cases resp) (simp_all add: resume_defs)

lemma resume_in_progress:
  assumes "in_progress p"
  shows "(in_progress (next_pc (resume cfg ledger opp now resp flag p))
            \<and> flag_after (resume cfg ledger opp now resp flag p) = flag)
         \<or> ((\<exists>res. next_pc (resume cfg ledger opp now resp flag p) = Finished res)
            \<and> \<not> flag_after (resume cfg ledger opp now resp flag p))"
  using assms
  by (cases p; cases resp)
     (auto simp: resume_defs split: option.splits sum.splits prod.splits bool.splits if_splits)


lemma running_step_other:
  assumes "j \<noteq> i"
  shows "running (system_step cfg ledger s (i, now, resp)) j = running s j"
  using assms by (auto simp: system_step_def running_def Let_def)

lemma running_step_self:
  assumes "i < length (procs s)"
  shows "running (system_step cfg ledger s (i, now, resp)) i
         = in_progress (next_pc (resume cfg ledger (fst (procs s ! i)) now resp (isExecuting s)
                                   (snd (procs s ! i))))"
  using assms by (auto simp: system_step_def running_def Let_def)

lemma flag_step:
  assumes "i < length (procs s)"
  shows "isExecuting (system_step cfg ledger s (i, now, resp))
         = flag_after (resume cfg ledger (fst (procs s ! i)) now resp (isExecuting s)
                                   (snd (procs s ! i)))"
  using assms by (auto simp: system_step_def Let_def)

lemma step_out_of_range:
  "\<not> i < length (procs s) \<Longrightarrow> system_step cfg ledger s (i, now, resp) = s"
  by (simp add: system_step_def)





text \<open>
  In \<open>executeArbitrage\<close>, the step that follows a failed placement of the sell order
  (\<open>createOrder\<close> returned \<open>null\<close> or threw) makes the calls of \<open>_handleFailedSell\<close>
  and no other, and waits for the cancellation.
\<close>

lemma failed_sell_step_is_handler:
  "sell_failed r \<Longrightarrow>
   issued (resume cfg ledger opp now r flag (AwaitSellOrder b))
     = fst (handleFailedSell_method (Some b) outcome)
   \<and> next_pc (resume cfg ledger opp now r flag (AwaitSellOrder b)) = AwaitCancelFailedSell"
  by (auto simp: sell_failed_def resume_defs handleFailedSell_method_def)




lemma mutex_step:
  assumes "mutex s"
  shows "mutex (system_step cfg ledger s ev)"
proof -
  obtain i now resp where ev: "ev = (i, now, resp)" by (cases ev) auto
  let ?s' = "system_step cfg ledger s (i, now, resp)"
  show ?thesis
  proof (cases "i < length (procs s)")
    case False
    with assms ev show ?thesis by (simp add: step_out_of_range)
  next
    case True
    let ?p = "snd (procs s ! i)"
    let ?r = "resume cfg ledger (fst (procs s ! i)) now resp (isExecuting s) ?p"
    have other: "\<And>j. j \<noteq> i \<Longrightarrow> running ?s' j = running s j"
      by (rule running_step_other)
    have self: "running ?s' i = in_progress (next_pc ?r)"
      by (rule running_step_self[OF True])
    have flag: "isExecuting ?s' = flag_after ?r"
      by (rule flag_step[OF True])
    have ri: "running s i = in_progress ?p" using True by (simp add: running_def)
    consider (ns) "?p = NotStarted" | (fin) res where "?p = Finished res" | (run) "in_progress ?p"
      by (cases ?p) auto
    then have "mutex ?s'"
    proof cases
      case ns
      show ?thesis
      proof (cases "resp = Start \<and> \<not> isExecuting s")
        case True
        then have r: "next_pc ?r = AwaitBuyPrice" "flag_after ?r = True"
          using ns by (simp_all add: resume_not_started)
        from True assms have none: "\<And>j. \<not> running s j" by (auto simp: mutex_def)
        have "\<And>j. running ?s' j = (j = i)"
          using other self r none by (case_tac "j = i") auto
        then show ?thesis using flag r by (auto simp: mutex_def)
      next
        case False
        then have r: "\<not> in_progress (next_pc ?r)" "flag_after ?r = isExecuting s"
          using ns by (auto simp: resume_not_started)
        have "\<And>j. running ?s' j = running s j"
          using other self r ri ns by (case_tac "j = i") auto
        then show ?thesis using flag r assms by (auto simp: mutex_def)
      qed
    next
      case fin
      then have r: "\<not> in_progress (next_pc ?r)" "flag_after ?r = isExecuting s"
        by (simp_all add: resume_finished)
      have "\<And>j. running ?s' j = running s j"
        using other self r ri fin by (case_tac "j = i") auto
      then show ?thesis using flag r assms by (auto simp: mutex_def)
    next
      case run
      with ri have rsi: "running s i" by simp
      with assms have only: "\<And>j. running s j = (j = i)" and fl: "isExecuting s"
        by (auto simp: mutex_def)
      from resume_in_progress[OF run, of cfg ledger "fst (procs s ! i)" now resp "isExecuting s"]
      show ?thesis
      proof
        assume a: "in_progress (next_pc ?r) \<and> flag_after ?r = isExecuting s"
        have "\<And>j. running ?s' j = (j = i)"
          using other self a only by (case_tac "j = i") auto
        then show ?thesis using flag a fl by (auto simp: mutex_def)
      next
        assume a: "(\<exists>res. next_pc ?r = Finished res) \<and> \<not> flag_after ?r"
        have "\<And>j. \<not> running ?s' j"
          using other self a only by (case_tac "j = i") auto
        then show ?thesis using flag a by (auto simp: mutex_def)
      qed
    qed
    with ev show ?thesis by simp
  qed
qed

lemma mutex_new: "mutex (new_system opps)"
  by (auto simp: mutex_def new_system_def running_def)

lemma mutex_run: "mutex s \<Longrightarrow> mutex (run_system cfg ledger s evs)"
  unfolding run_system_def
  by (induction evs arbitrary: s) (auto simp: mutex_step)

lemma busy_call_dropped:
  assumes "isExecuting s" and "i < length (procs s)" and "snd (procs s ! i) = NotStarted"
  shows "snd (procs (system_step cfg ledger s (i, now, Start)) ! i) = Finished False
       \<and> calls (system_step cfg ledger s (i, now, Start)) = calls s
       \<and> warnings (system_step cfg ledger s (i, now, Start))
           = warnings s @ [(i, ''Trade execution already in progress'')]
       \<and> isExecuting (system_step cfg ledger s (i, now, Start))
       \<and> (\<forall>j. running (system_step cfg ledger s (i, now, Start)) j = running s j)"
proof -
  have r: "resume cfg ledger (fst (procs s ! i)) now Start (isExecuting s) (snd (procs s ! i))
        = \<lparr>next_pc = Finished False, flag_after = True, issued = [],
                          logged = [''Trade execution already in progress'']\<rparr>"
    using assms by (simp add: resume_not_started)
  have "\<And>j. running (system_step cfg ledger s (i, now, Start)) j = running s j"
  proof -
    fix j show "running (system_step cfg ledger s (i, now, Start)) j = running s j"
    proof (cases "j = i")
      case True
      then show ?thesis using assms r running_step_self[OF assms(2), of cfg ledger now Start]
        by (simp add: running_def)
    next
      case False
      then show ?thesis by (rule running_step_other)
    qed
  qed
  moreover have "snd (procs (system_step cfg ledger s (i, now, Start)) ! i) = Finished False
       \<and> calls (system_step cfg ledger s (i, now, Start)) = calls s
       \<and> warnings (system_step cfg ledger s (i, now, Start))
           = warnings s @ [(i, ''Trade execution already in progress'')]
       \<and> isExecuting (system_step cfg ledger s (i, now, Start))"
    using assms r by (simp add: system_step_def Let_def)
  ultimately show ?thesis by blast
qed


text \<open>
  Claim C8. In every state that calls of \<open>executeArbitrage\<close> on one executor reach,
  under any schedule and any answers of the environment, at most one execution is in
  progress, and the flag \<open>isExecuting\<close> is set exactly while one is. A call made while
  the flag is set returns false at once: it logs that an execution is already in progress,
  makes no call on the order manager, leaves the flag set and the execution in progress
  untouched.
\<close>

theorem one_execution_at_a_time:
  assumes "s = run_system cfg ledger (new_system opps) evs"
  shows "(\<forall>i j. running s i \<and> running s j \<longrightarrow> i = j)
       \<and> (isExecuting s = (\<exists>i. running s i))
       \<and> (\<forall>i now. isExecuting s \<and> i < length (procs s) \<and> snd (procs s ! i) = NotStarted \<longrightarrow>
             snd (procs (system_step cfg ledger s (i, now, Start)) ! i) = Finished False
           \<and> calls (system_step cfg ledger s (i, now, Start)) = calls s
           \<and> warnings (system_step cfg ledger s (i, now, Start))
               = warnings s @ [(i, ''Trade execution already in progress'')]
           \<and> isExecuting (system_step cfg ledger s (i, now, Start))
           \<and> (\<forall>j. running (system_step cfg ledger s (i, now, Start)) j = running s j))"
proof -
  have "mutex s" unfolding assms by (rule mutex_run[OF mutex_new])
  then have "(\<forall>i j. running s i \<and> running s j \<longrightarrow> i = j)
       \<and> (isExecuting s = (\<exists>i. running s i))"
    by (simp add: mutex_def)
  then show ?thesis using busy_call_dropped[of s _ cfg ledger] by blast
qed

theorem one_execution_at_a_time_witness:
  "isExecuting first_call_running \<and> running first_call_running 0
   \<and> \<not> running first_call_running 1
   \<and> (1::nat) < length (procs first_call_running)
   \<and> snd (procs first_call_running ! 1) = NotStarted
   \<and> snd (procs (system_step default_executor_config sample_ledger first_call_running
                   (1, 3, Start)) ! 1) = Finished False
   \<and> calls (system_step default_executor_config sample_ledger first_call_running (1, 3, Start))
       = calls first_call_running
   \<and> isExecuting (system_step default_executor_config sample_ledger first_call_running
                     (1, 3, Start))
   \<and> running (system_step default_executor_config sample_ledger first_call_running
                 (1, 3, Start)) 0"
proof -
  have s: "first_call_running = run_system default_executor_config sample_ledger
       (new_system [sample_opportunity, sample_opportunity])
       [(0, 1, Start), (0, 2, Price (Some (Fin 100)))]"
    by (simp add: first_call_running_def)
  have facts: "isExecuting first_call_running \<and> running first_call_running 0
     \<and> \<not> running first_call_running 1
     \<and> (1::nat) < length (procs first_call_running)
     \<and> snd (procs first_call_running ! 1) = NotStarted"
    by (simp add: first_call_running_def run_system_def system_step_def new_system_def
        running_def resume_defs)
  from one_execution_at_a_time [OF s] facts show ?thesis by blast
qed

end
